theory Spec2Isabelle
  imports Main "HOL-Library.Sublist"
begin

section \<open>JavaScript strings\<close>

text \<open>
  Strings of the agent are modelled as \<^typ>\<open>string\<close>; a character is one code unit
  below 256 (the Latin-1 range of UTF-16).  The helpers below are the few methods of
  \<^verbatim>\<open>String.prototype\<close> and \<^verbatim>\<open>Array.prototype\<close> that the agent calls.
\<close>

abbreviation backslash :: char where
  "backslash \<equiv> CHR 0x5C"

text \<open>The separator class of the regular expressions \<^verbatim>\<open>/[/\\]/\<close>.\<close>

definition is_sep :: "char \<Rightarrow> bool" where
  "is_sep c = (c = CHR ''/'' \<or> c = backslash)"

definition is_slash :: "char \<Rightarrow> bool" where
  "is_slash c = (c = CHR ''/'')"

text \<open>White space removed by \<^verbatim>\<open>trim()\<close>: TAB, LF, VT, FF, CR, SP and NBSP.\<close>

definition is_space :: "char \<Rightarrow> bool" where
  "is_space c = (c \<in> {CHR 0x09, CHR 0x0A, CHR 0x0B, CHR 0x0C, CHR 0x0D, CHR 0x20, CHR 0xA0})"

definition trim :: "string \<Rightarrow> string" where
  "trim s = rev (dropWhile is_space (rev (dropWhile is_space s)))"

text \<open>
  \<^verbatim>\<open>s.split(sep)\<close> for a separator that matches exactly one character: the result
  always has at least one element, and \<^verbatim>\<open>''.split(sep)\<close> is \<^verbatim>\<open>['']\<close>.
\<close>

fun split_on :: "(char \<Rightarrow> bool) \<Rightarrow> string \<Rightarrow> string list" where
  "split_on P [] = [[]]"
| "split_on P (c # cs) =
     (if P c then [] # split_on P cs
      else (c # hd (split_on P cs)) # tl (split_on P cs))"

text \<open>\<^verbatim>\<open>parts.join(sep)\<close>.\<close>

fun joinWith :: "string \<Rightarrow> string list \<Rightarrow> string" where
  "joinWith sep [] = []"
| "joinWith sep [x] = x"
| "joinWith sep (x # y # ys) = x @ sep @ joinWith sep (y # ys)"

text \<open>\<^verbatim>\<open>s.replace(/\\/g, '/')\<close>.\<close>

definition unbackslash :: "string \<Rightarrow> string" where
  "unbackslash s = map (\<lambda>c. if c = backslash then CHR ''/'' else c) s"

text \<open>\<^verbatim>\<open>toLowerCase()\<close> on the Latin-1 range.\<close>

definition lower_char :: "char \<Rightarrow> char" where
  "lower_char c =
     (let n = (of_char c :: nat)
      in if (65 \<le> n \<and> n \<le> 90) \<or> (192 \<le> n \<and> n \<le> 222 \<and> n \<noteq> 215)
         then char_of (n + 32) else c)"

definition toLowerCase :: "string \<Rightarrow> string" where
  "toLowerCase s = map lower_char s"

text \<open>A string value that may be absent is falsy when absent or empty.\<close>

definition falsy :: "string option \<Rightarrow> bool" where
  "falsy v = (v = None \<or> v = Some [])"

section \<open>The path module\<close>

text \<open>
  The agent resolves paths with Node's \<^verbatim>\<open>path\<close> module.  The functions below follow
  its POSIX flavour (separator \<^verbatim>\<open>/\<close>): \<^verbatim>\<open>normalizeString\<close> walks the segments of a
  path, drops empty and \<^verbatim>\<open>.\<close> segments, and lets a \<^verbatim>\<open>..\<close> segment remove the segment
  before it; above the root the \<^verbatim>\<open>..\<close> is kept when \<^verbatim>\<open>allowAboveRoot\<close> holds and
  dropped otherwise.  The stack of kept segments is held in reverse.
\<close>

fun normalizeSegs :: "bool \<Rightarrow> string list \<Rightarrow> string list \<Rightarrow> string list" where
  "normalizeSegs allowAboveRoot res [] = rev res"
| "normalizeSegs allowAboveRoot res (s # ss) =
     (if s = [] \<or> s = ''.'' then normalizeSegs allowAboveRoot res ss
      else if s = ''..'' then
        (if res = [] \<or> hd res = ''..''
         then normalizeSegs allowAboveRoot (if allowAboveRoot then ''..'' # res else res) ss
         else normalizeSegs allowAboveRoot (tl res) ss)
      else normalizeSegs allowAboveRoot (s # res) ss)"

definition normalizeString :: "string \<Rightarrow> bool \<Rightarrow> string" where
  "normalizeString path allowAboveRoot =
     joinWith ''/'' (normalizeSegs allowAboveRoot [] (split_on is_slash path))"

definition path_isAbsolute :: "string \<Rightarrow> bool" where
  "path_isAbsolute p = (p \<noteq> [] \<and> hd p = CHR ''/'')"

definition path_normalize :: "string \<Rightarrow> string" where
  "path_normalize p =
     (if p = [] then ''.''
      else
        let isAbsolute = (hd p = CHR ''/'');
            trailingSeparator = (last p = CHR ''/'');
            q = normalizeString p (\<not> isAbsolute)
        in if q = [] then (if isAbsolute then ''/'' else if trailingSeparator then ''./'' else ''.'')
           else (if isAbsolute then ''/'' else []) @ q @ (if trailingSeparator then ''/'' else []))"

definition path_join :: "string list \<Rightarrow> string" where
  "path_join args =
     (let parts = filter (\<lambda>a. a \<noteq> []) args
      in if parts = [] then ''.'' else path_normalize (joinWith ''/'' parts))"

text \<open>
  \<^verbatim>\<open>path.resolve\<close> prepends its arguments from the last to the first, and then the
  working directory, until the path built so far is absolute.
\<close>

fun resolveLoop :: "string list \<Rightarrow> string \<Rightarrow> string \<times> bool" where
  "resolveLoop [] resolvedPath = (resolvedPath, False)"
| "resolveLoop (p # ps) resolvedPath =
     (if p = [] then resolveLoop ps resolvedPath
      else if hd p = CHR ''/'' then (p @ ''/'' @ resolvedPath, True)
      else resolveLoop ps (p @ ''/'' @ resolvedPath))"

definition path_resolve :: "string \<Rightarrow> string list \<Rightarrow> string" where
  "path_resolve cwd args =
     (case resolveLoop (rev args @ [cwd]) [] of
        (resolvedPath, resolvedAbsolute) \<Rightarrow>
          let q = normalizeString resolvedPath (\<not> resolvedAbsolute)
          in if resolvedAbsolute then ''/'' @ q
             else if q \<noteq> [] then q else ''.'')"

text \<open>\<^verbatim>\<open>path.basename(p)\<close>: the last segment, trailing separators aside.\<close>

definition path_basename :: "string \<Rightarrow> string" where
  "path_basename p = rev (takeWhile (\<lambda>c. \<not> is_slash c) (dropWhile is_slash (rev p)))"

text \<open>
  \<^verbatim>\<open>path.dirname(p)\<close>: the scan runs from the end down to index 1, skips the trailing
  separators and the last segment, and cuts at the separator it meets then.
\<close>

definition path_dirname :: "string \<Rightarrow> string" where
  "path_dirname p =
     (case p of
        [] \<Rightarrow> ''.''
      | c # q \<Rightarrow>
          (case dropWhile (\<lambda>c. \<not> is_slash c) (dropWhile is_slash (rev q)) of
             [] \<Rightarrow> if c = CHR ''/'' then ''/'' else ''.''
           | _ # r \<Rightarrow> if c = CHR ''/'' \<and> r = [] then ''//'' else c # rev r))"

text \<open>
  \<^verbatim>\<open>path.relative(from, to)\<close>: both paths are resolved, their common leading segments
  removed, and one \<^verbatim>\<open>..\<close> is written for each segment left of \<open>from\<close>.
\<close>

fun strip_common :: "string list \<Rightarrow> string list \<Rightarrow> string list \<times> string list" where
  "strip_common (x # xs) (y # ys) = (if x = y then strip_common xs ys else (x # xs, y # ys))"
| "strip_common xs ys = (xs, ys)"

definition resolved_segments :: "string \<Rightarrow> string list" where
  "resolved_segments p = filter (\<lambda>s. s \<noteq> []) (split_on is_slash p)"

definition path_relative :: "string \<Rightarrow> string \<Rightarrow> string \<Rightarrow> string" where
  "path_relative cwd from_path to_path =
     (case strip_common (resolved_segments (path_resolve cwd [from_path]))
                        (resolved_segments (path_resolve cwd [to_path])) of
        (fs, ts) \<Rightarrow> joinWith ''/'' (map (\<lambda>_. ''..'') fs @ ts))"

section \<open>Sandbox path resolvers\<close>

text \<open>
  Every \<^verbatim>\<open>throw\<close> of the agent is a value of \<open>error\<close>; a function that may throw
  returns \<open>error + 'a\<close>.  \<open>RuntimeError\<close> carries the message of a failure reported by
  the container runtime, \<open>TypeError\<close> is a property read on \<^verbatim>\<open>undefined\<close>, \<open>FsError\<close>
  a rejected file-system call.
\<close>

datatype error =
    CaminhoNaoPermitido
  | ForaDoDiretorioDoServidor
  | PathForaDoSandbox
  | EntradaInvalidaEmArchive
  | PathForaDoDestino
  | ServidorNaoEncontrado
  | SemPermissao
  | ComandoInvalido
  | ContainerInexistente
  | STDINIndisponivel
  | FalhaAoEscreverNoSTDIN
  | FalhaAoCriarDiretorio string
  | RuntimeError string
  | TypeError
  | FsError

definition BASE_SERVER_PATH :: string where
  "BASE_SERVER_PATH = ''E:/servers''"

subsection \<open>HTTP file manager\<close>

text \<open>
  \<^verbatim>\<open>sanitizeRelative(p?: string)\<close>; \<^term>\<open>None\<close> is an absent argument.
\<close>

definition sanitizeRelative :: "string option \<Rightarrow> error + string" where
  "sanitizeRelative p =
     (case p of
        None \<Rightarrow> Inr []
      | Some s \<Rightarrow>
          if s = [] \<or> s = ''/'' \<or> s = ''.'' then Inr []
          else
            let rel = trim (dropWhile is_sep s)
            in if ''..'' \<in> set (split_on is_sep rel) then Inl CaminhoNaoPermitido
               else Inr (unbackslash rel))"

text \<open>
  \<^verbatim>\<open>resolveServerPath(serverId, rel)\<close>; the working directory of the process, which
  \<^verbatim>\<open>path.resolve\<close> reads, is the parameter \<open>cwd\<close>.
\<close>

definition resolveServerPath :: "string \<Rightarrow> string \<Rightarrow> string \<Rightarrow> error + string" where
  "resolveServerPath cwd serverId rel =
     (let base = path_join [BASE_SERVER_PATH, serverId];
          abs = path_resolve cwd [base, rel]
      in if \<not> prefix (path_resolve cwd [base]) abs then Inl ForaDoDiretorioDoServidor
         else Inr abs)"

subsection \<open>SFTP\<close>

definition is_alpha :: "char \<Rightarrow> bool" where
  "is_alpha c =
     (let n = (of_char c :: nat) in (97 \<le> n \<and> n \<le> 122) \<or> (65 \<le> n \<and> n \<le> 90))"

text \<open>\<^verbatim>\<open>isOsAbsolute\<close>: the test \<^verbatim>\<open>/^(?:[a-zA-Z]:\\|\\\\|[a-zA-Z]:\/)/\<close>.\<close>

fun isOsAbsolute :: "string \<Rightarrow> bool" where
  "isOsAbsolute (a # b # c # _) =
     ((is_alpha a \<and> b = CHR '':'' \<and> (c = backslash \<or> c = CHR ''/''))
      \<or> (a = backslash \<and> b = backslash))"
| "isOsAbsolute [a, b] = (a = backslash \<and> b = backslash)"
| "isOsAbsolute _ = False"


definition normalize_sftp :: "string \<Rightarrow> string \<Rightarrow> error + string" where
  "normalize_sftp rootDir p =
     (if p = [] \<or> p = ''.'' \<or> p = ''/'' then Inr rootDir
      else if p = rootDir \<or> p = rootDir @ ''/'' \<or> p = rootDir @ ''/'' @ ''.'' then Inr rootDir
      else if prefix ''/'' p then
        (let relPart = dropWhile is_slash p
         in if relPart = [] then Inr rootDir
            else
              let rel = path_normalize (path_join [rootDir, relPart])
              in if \<not> prefix rootDir rel then Inl PathForaDoSandbox else Inr rel)
      else if isOsAbsolute p \<or> path_isAbsolute p then
        (let abs = path_normalize p
         in if \<not> prefix rootDir abs then Inl PathForaDoSandbox else Inr abs)
      else
        (let rel = path_normalize (path_join [rootDir, dropWhile is_slash p])
         in if \<not> prefix rootDir rel then Inl PathForaDoSandbox else Inr rel))"

subsection \<open>Containment\<close>

text \<open>
  A segment is plain when it is a name: not empty, not \<^verbatim>\<open>.\<close> and not \<^verbatim>\<open>..\<close>; a server
  id is plain when it is one such segment.  The canonical form of a path is the list of
  segments that \<^verbatim>\<open>path.normalize\<close> leaves, and a path is inside a root when the
  canonical form of the root is a leading part of its own, segment by segment.
\<close>

definition plain :: "string \<Rightarrow> bool" where
  "plain s = (s \<noteq> [] \<and> s \<noteq> ''.'' \<and> s \<noteq> ''..'')"






text \<open>
  The form of the stack of \<open>normalizeSegs\<close>: plain segments above \<^verbatim>\<open>..\<close> segments only.
\<close>

definition stack_ok :: "string list \<Rightarrow> bool" where
  "stack_ok res = (\<exists>ps ds. res = ps @ ds \<and> list_all plain ps \<and> (\<forall>d \<in> set ds. d = ''..''))"

section \<open>Server instances\<close>

type_synonym container = nat
type_synonym stream = nat
type_synonym listener = nat

record server =
  id_server :: string
  container :: "container option"
  running :: bool
  isInitializing :: bool
  startedAt :: "int option"
  stdinStream :: "stream option"
  liveListeners :: "listener list"

definition new_Server :: "string \<Rightarrow> server" where
  "new_Server i =
     \<lparr>id_server = i, container = None, running = False, isInitializing = False,
      startedAt = None, stdinStream = None, liveListeners = []\<rparr>"

text \<open>
  What an instance does to the outside is recorded as a list of effects, in the order of
  the calls: a live event handed to the listeners (\<^verbatim>\<open>_emitLive\<close>), a request to the
  container runtime, a file-system call, a line written to the attached stream.
  \<open>TarExtract file dir n\<close> is the call \<^verbatim>\<open>tar.x\<close> on the archive \<open>file\<close> with
  \<^verbatim>\<open>cwd: dir\<close> and \<^verbatim>\<open>strip: n\<close>.
\<close>

datatype category = CatStatus | CatPull | CatError | CatInternal

datatype live_message =
    Iniciando_servidor
  | Arquivo_de_config_gerado string
  | Falha_ao_gerar_arquivo string
  | Baixando_imagem string
  | Pull_progress string
  | Pull_concluido
  | Timeout_para_container_ficar_running
  | Servidor_em_execucao
  | Container_started
  | Container_iniciado_anexando
  | Falha_ao_iniciar error
  | Servidor_marcado_como_desligado
  | Forcando_parada
  | Parando_servidor
  | Falha_stop_gracioso
  | Reiniciando_servidor

datatype effect =
    EmitLive category live_message
  | DockerRemove container
  | DockerKill container
  | DockerPull string
  | DockerCreate
  | DockerStart container
  | DockerInspect container
  | DockerAttach container
  | DockerWait container
  | FsMkdir string
  | FsWriteFile string
  | FsRm string
  | TarExtract string string nat
  | StdinWrite stream string

subsection \<open>Answers of the container runtime\<close>

record inspect_data =
  State_Status :: string
  State_StartedAt :: "string option"

datatype inspect_result = InspectFailed | InspectData inspect_data

datatype server_status = Running | Stopped

text \<open>JavaScript truthiness of the two nullable values \<^verbatim>\<open>getStatus\<close> tests.\<close>

definition truthy_number :: "int option \<Rightarrow> bool" where
  "truthy_number v = (case v of None \<Rightarrow> False | Some n \<Rightarrow> n \<noteq> 0)"

definition truthy_string :: "string option \<Rightarrow> bool" where
  "truthy_string v = (case v of None \<Rightarrow> False | Some s \<Rightarrow> s \<noteq> [])"

subsection \<open>getStatus\<close>

text \<open>
  \<open>getTime\<close> is \<^verbatim>\<open>new Date(s).getTime()\<close> (\<^term>\<open>None\<close> for \<^verbatim>\<open>NaN\<close>), \<open>now\<close> is
  \<^verbatim>\<open>Date.now()\<close>, \<open>insp\<close> the outcome of \<^verbatim>\<open>container.inspect()\<close>.
\<close>

definition getStatus ::
  "(string \<Rightarrow> int option) \<Rightarrow> int \<Rightarrow> inspect_result \<Rightarrow> server \<Rightarrow> server_status \<times> server" where
  "getStatus getTime now insp s =
     (case container s of
        None \<Rightarrow> (Stopped, s\<lparr>running := False\<rparr>)
      | Some c \<Rightarrow>
          (case insp of
             InspectFailed \<Rightarrow> (Stopped, s\<lparr>running := False, container := None\<rparr>)
           | InspectData d \<Rightarrow>
               if State_Status d = ''running'' then
                 (Running,
                  if \<not> running s then
                    (let s1 = s\<lparr>running := True\<rparr>
                     in if \<not> truthy_number (startedAt s1) \<and> truthy_string (State_StartedAt d)
                        then s1\<lparr>startedAt :=
                               Some (case getTime (the (State_StartedAt d)) of
                                       Some t \<Rightarrow> t | None \<Rightarrow> now)\<rparr>
                        else s1)
                  else s)
               else (Stopped, s\<lparr>running := False\<rparr>)))"

subsection \<open>start\<close>

text \<open>
  The outcomes of the awaited calls of one \<^verbatim>\<open>start(data)\<close>: the template files in the
  order they are written, each with its outcome (the text is built and written, the write
  is rejected, or building the text throws before any write); the progress lines and
  the failure of the pull, if any; the answers to \<^verbatim>\<open>createContainer\<close>,
  \<^verbatim>\<open>container.start()\<close>, the successive \<^verbatim>\<open>inspect()\<close> polls and \<^verbatim>\<open>attach\<close>.
  The text of the command and of the templates is passed to the runtime and the file
  system unread by the instance, so only the image name of the start data is kept.  The
  start data has all its fields, as the action handler checks before it calls
  \<^verbatim>\<open>start\<close>, so the code that builds the command, the environment and the port map
  before the \<^verbatim>\<open>try\<close> block does not throw.
\<close>

datatype template_outcome = TemplateWritten | WriteRejected | BuildThrows

record start_env =
  now_ms :: int
  templates :: "(string \<times> template_outcome) list"
  pull_events :: "string list"
  pull_result :: "string option"
  create_result :: "string + container"
  start_result :: "string option"
  inspect_results :: "nat \<Rightarrow> inspect_result"
  attach_result :: "string + stream"

record startData =
  image :: string

definition serverPath :: "string \<Rightarrow> string" where
  "serverPath i = BASE_SERVER_PATH @ ''/'' @ i"

definition writeTemplateFile :: "string \<Rightarrow> string \<times> template_outcome \<Rightarrow> effect list" where
  "writeTemplateFile dir t =
     (case t of (name, outcome) \<Rightarrow>
        (case outcome of
           TemplateWritten \<Rightarrow>
             [FsWriteFile (dir @ ''/'' @ name), EmitLive CatStatus (Arquivo_de_config_gerado name)]
         | WriteRejected \<Rightarrow>
             [FsWriteFile (dir @ ''/'' @ name), EmitLive CatError (Falha_ao_gerar_arquivo name)]
         | BuildThrows \<Rightarrow> [EmitLive CatError (Falha_ao_gerar_arquivo name)]))"

text \<open>The loop that polls \<^verbatim>\<open>inspect()\<close> at most 15 times; \<open>i\<close> counts the polls made.\<close>

fun pollRunning :: "(nat \<Rightarrow> inspect_result) \<Rightarrow> container \<Rightarrow> nat \<Rightarrow> nat \<Rightarrow> bool \<times> effect list" where
  "pollRunning insp c i 0 = (False, [])"
| "pollRunning insp c i (Suc n) =
     (if (case insp i of InspectData d \<Rightarrow> State_Status d = ''running'' | InspectFailed \<Rightarrow> False)
      then (True, [DockerInspect c])
      else (case pollRunning insp c (Suc i) n of (r, es) \<Rightarrow> (r, DockerInspect c # es)))"

text \<open>The \<^verbatim>\<open>catch\<close> block of \<^verbatim>\<open>start\<close>.\<close>

definition start_catch :: "error \<Rightarrow> server \<Rightarrow> effect list \<Rightarrow> (error + unit) \<times> server \<times> effect list" where
  "start_catch e s es =
     (Inl e,
      s\<lparr>container := None, running := False, isInitializing := False,
        startedAt := None, stdinStream := None\<rparr>,
      es @ [EmitLive CatError (Falha_ao_iniciar e)]
         @ (case container s of Some c \<Rightarrow> [DockerRemove c] | None \<Rightarrow> []))"

definition start :: "start_env \<Rightarrow> startData \<Rightarrow> server \<Rightarrow> (error + unit) \<times> server \<times> effect list" where
  "start env data s0 =
     (let es0 = (case container s0 of Some c \<Rightarrow> [DockerRemove c] | None \<Rightarrow> []);
          s1 = s0\<lparr>container := None, startedAt := None, running := False, isInitializing := False\<rparr>;
          es1 = es0 @ [EmitLive CatStatus Iniciando_servidor, FsMkdir (serverPath (id_server s1))]
                @ concat (map (writeTemplateFile (serverPath (id_server s1))) (templates env))
                @ [EmitLive CatPull (Baixando_imagem (image data)), DockerPull (image data)]
                @ map (\<lambda>l. EmitLive CatPull (Pull_progress l)) (pull_events env)
      in case pull_result env of
           Some msg \<Rightarrow> start_catch (RuntimeError msg) s1 es1
         | None \<Rightarrow>
             (let es2 = es1 @ [EmitLive CatPull Pull_concluido, DockerCreate]
              in case create_result env of
                   Inl msg \<Rightarrow> start_catch (RuntimeError msg) s1 es2
                 | Inr c \<Rightarrow>
                     (let s2 = s1\<lparr>container := Some c\<rparr>;
                          es3 = es2 @ [DockerStart c]
                      in case start_result env of
                           Some msg \<Rightarrow> start_catch (RuntimeError msg) s2 es3
                         | None \<Rightarrow>
                             (case pollRunning (inspect_results env) c 0 15 of
                                (isRunning, esp) \<Rightarrow>
                                  (let s3 = (if isRunning
                                             then s2\<lparr>running := True, startedAt := Some (now_ms env)\<rparr>
                                             else s2);
                                       es4 = es3 @ esp
                                             @ [if isRunning then EmitLive CatStatus Servidor_em_execucao
                                                else EmitLive CatError Timeout_para_container_ficar_running,
                                                EmitLive CatInternal Container_started,
                                                EmitLive CatStatus Container_iniciado_anexando,
                                                DockerAttach c]
                                   in case attach_result env of
                                        Inl msg \<Rightarrow> start_catch (RuntimeError msg) s3 es4
                                      | Inr st \<Rightarrow>
                                          (Inr (), s3\<lparr>stdinStream := Some st\<rparr>,
                                           es4 @ [DockerWait c]))))))"

text \<open>
  The continuation that \<^verbatim>\<open>_attachAfterStart\<close> registers on \<^verbatim>\<open>container.wait()\<close>: it
  runs when the container has exited.
\<close>

definition wait_continuation :: "server \<Rightarrow> server \<times> effect list" where
  "wait_continuation s =
     (s\<lparr>running := False, startedAt := None, stdinStream := None\<rparr>,
      [EmitLive CatStatus Servidor_marcado_como_desligado])"

subsection \<open>sendCommand, kill, stop\<close>

definition reattach :: "string + stream \<Rightarrow> server \<Rightarrow> server \<times> effect list" where
  "reattach att s =
     (case container s of
        None \<Rightarrow> (s, [])
      | Some c \<Rightarrow>
          (case att of
             Inr st \<Rightarrow> (s\<lparr>stdinStream := Some st\<rparr>, [DockerAttach c])
           | Inl _ \<Rightarrow> (s, [DockerAttach c])))"

text \<open>
  \<open>att\<close> is the outcome of the attach that \<^verbatim>\<open>_reattach\<close> makes, \<open>write_ok\<close> whether
  the write to the stream succeeds.
\<close>

definition sendCommand ::
  "string + stream \<Rightarrow> bool \<Rightarrow> string \<Rightarrow> server \<Rightarrow> (error + unit) \<times> server \<times> effect list" where
  "sendCommand att write_ok cmd s =
     (if cmd = [] then (Inl ComandoInvalido, s, [])
      else if container s = None then (Inl ContainerInexistente, s, [])
      else
        (case (if stdinStream s = None then reattach att s else (s, [])) of
           (s1, es1) \<Rightarrow>
             (case stdinStream s1 of
                None \<Rightarrow> (Inl STDINIndisponivel, s1, es1)
              | Some st \<Rightarrow>
                  (let line = (if suffix [CHR 0x0A] cmd then cmd else cmd @ [CHR 0x0A])
                   in (if write_ok then Inr () else Inl FalhaAoEscreverNoSTDIN,
                       s1, es1 @ [StdinWrite st line])))))"

definition kill :: "server \<Rightarrow> server \<times> effect list" where
  "kill s =
     (case container s of
        None \<Rightarrow> (s, [])
      | Some c \<Rightarrow> (s, [EmitLive CatStatus Forcando_parada, DockerKill c]))"

definition stop :: "string + stream \<Rightarrow> bool \<Rightarrow> string \<Rightarrow> server \<Rightarrow> server \<times> effect list" where
  "stop att write_ok command s =
     (case container s of
        None \<Rightarrow> (s, [])
      | Some c \<Rightarrow>
          (case sendCommand att write_ok command s of
             (Inr _, s1, es) \<Rightarrow> (s1, EmitLive CatStatus Parando_servidor # es)
           | (Inl _, s1, es) \<Rightarrow>
               (case kill s1 of
                  (s2, ek) \<Rightarrow>
                    (s2, EmitLive CatStatus Parando_servidor # es
                         @ [EmitLive CatError Falha_stop_gracioso] @ ek))))"

subsection \<open>States of an instance\<close>

text \<open>The second invariant of the data model, and the state of an instance that was
  never started.\<close>

definition startedAt_iff_running :: "server \<Rightarrow> bool" where
  "startedAt_iff_running s = ((startedAt s \<noteq> None) = running s)"

definition stopped_state :: "server \<Rightarrow> bool" where
  "stopped_state s =
     (container s = None \<and> \<not> running s \<and> \<not> isInitializing s \<and> startedAt s = None
      \<and> stdinStream s = None)"

section \<open>The registry\<close>

text \<open>
  \<^verbatim>\<open>Server.servers\<close> is an array of object references.  Instances live in a heap
  indexed by reference; \<^verbatim>\<open>new Server(id)\<close> takes the next free reference.
\<close>

record world =
  heap :: "nat \<Rightarrow> server option"
  servers :: "nat list"
  nextRef :: nat

definition empty_world :: world where
  "empty_world = \<lparr>heap = (\<lambda>_. None), servers = [], nextRef = 0\<rparr>"

definition has_id :: "world \<Rightarrow> string \<Rightarrow> nat \<Rightarrow> bool" where
  "has_id w uuid r = (case heap w r of Some s \<Rightarrow> id_server s = uuid | None \<Rightarrow> False)"

text \<open>\<^verbatim>\<open>Server.create(id)\<close>; \<open>mkdir_ok\<close> is whether \<^verbatim>\<open>fs.mkdir\<close> succeeds.\<close>

definition create :: "bool \<Rightarrow> string \<Rightarrow> world \<Rightarrow> error + world" where
  "create mkdir_ok i w =
     (if \<not> mkdir_ok then Inl (FalhaAoCriarDiretorio i)
      else Inr (w\<lparr>heap := (heap w)(nextRef w \<mapsto> new_Server i),
                  servers := servers w @ [nextRef w],
                  nextRef := Suc (nextRef w)\<rparr>))"

definition getServer :: "string \<Rightarrow> world \<Rightarrow> nat option" where
  "getServer uuid w = find (has_id w uuid) (servers w)"

text \<open>
  The registries that \<^verbatim>\<open>create\<close> and \<^verbatim>\<open>delete\<close> build from the empty one: every
  reference of the array is allocated, and none occurs twice.
\<close>

definition wf_world :: "world \<Rightarrow> bool" where
  "wf_world w =
     (distinct (servers w) \<and> (\<forall>r \<in> set (servers w). r < nextRef w \<and> heap w r \<noteq> None))"

text \<open>
  \<^verbatim>\<open>delete()\<close> on the instance at reference \<open>this\<close>.  Neither \<^verbatim>\<open>kill()\<close>, nor the
  removal of the container, nor \<^verbatim>\<open>fs.rm\<close> is awaited: the calls are issued and
  \<^verbatim>\<open>delete\<close> goes on.
\<close>

definition delete :: "nat \<Rightarrow> world \<Rightarrow> world \<times> effect list" where
  "delete this w =
     (case heap w this of
        None \<Rightarrow> (w, [])
      | Some s \<Rightarrow>
          (let ek = snd (kill s);
               er = (case container s of Some c \<Rightarrow> [DockerRemove c] | None \<Rightarrow> []);
               s' = s\<lparr>container := None, running := False, isInitializing := False,
                      startedAt := None, stdinStream := None, liveListeners := []\<rparr>
           in (w\<lparr>heap := (heap w)(this \<mapsto> s'), servers := remove1 this (servers w)\<rparr>,
               ek @ er @ [FsRm (serverPath (id_server s))])))"

section \<open>SFTP authentication\<close>

datatype auth_method = AuthNone | AuthPassword | AuthOther

text \<open>
  \<open>Reject ms\<close> is \<^verbatim>\<open>ctx.reject(ms)\<close>; \<open>Accept r root\<close> is \<^verbatim>\<open>ctx.accept()\<close> with the
  connection bound to the instance at reference \<open>r\<close> and to the root directory \<open>root\<close>.
\<close>

datatype auth_outcome = Reject "string list" | Accept nat string

definition usernameBase :: "string \<Rightarrow> string" where
  "usernameBase rawUser = joinWith ''_'' (butlast (split_on (\<lambda>c. c = CHR ''_'') rawUser))"

definition serverId_of :: "string \<Rightarrow> string" where
  "serverId_of rawUser =
     (let l = last (split_on (\<lambda>c. c = CHR ''_'') rawUser) in if l = [] then ''a'' else l)"

definition prefix_matches :: "string \<Rightarrow> world \<Rightarrow> nat list" where
  "prefix_matches serverId w =
     filter (\<lambda>r. case heap w r of Some s \<Rightarrow> prefix serverId (id_server s) | None \<Rightarrow> False)
       (servers w)"

text \<open>The instance the handler ends with in \<^verbatim>\<open>serverObj\<close>: the exact match, else the only
  prefix match.\<close>

definition lookup_serverObj :: "string \<Rightarrow> world \<Rightarrow> nat option" where
  "lookup_serverObj serverId w =
     (case getServer serverId w of
        Some r \<Rightarrow> Some r
      | None \<Rightarrow>
          (case prefix_matches serverId w of
             [r] \<Rightarrow> Some r
           | _ \<Rightarrow> None))"

text \<open>
  The handler of the \<^verbatim>\<open>authentication\<close> event; \<open>VerifySFTP\<close> is the remote check of
  user name, password and server id.
\<close>

definition authentication ::
  "(string \<Rightarrow> string \<Rightarrow> string \<Rightarrow> bool) \<Rightarrow> world \<Rightarrow> auth_method \<Rightarrow> string \<Rightarrow> string \<Rightarrow> auth_outcome" where
  "authentication VerifySFTP w method username password =
     (if method = AuthNone then Reject [''password'']
      else if method \<noteq> AuthPassword then Reject [''password'']
      else if length (split_on (\<lambda>c. c = CHR ''_'') username) < 2 then Reject []
      else
        (case lookup_serverObj (serverId_of username) w of
           None \<Rightarrow> Reject []
         | Some r \<Rightarrow>
             (case heap w r of
                None \<Rightarrow> Reject []
              | Some s \<Rightarrow>
                  if VerifySFTP (usernameBase username) password (id_server s)
                  then Accept r (path_join [BASE_SERVER_PATH, id_server s])
                  else Reject [])))"

section \<open>The HTTP surface\<close>

subsection \<open>Requests, replies and the environment\<close>

text \<open>
  The fields of a JSON body that the handlers read; \<^term>\<open>None\<close> is an absent field.
  \<open>b_start_fields\<close> tells whether the eight fields that \<^verbatim>\<open>start\<close> and \<^verbatim>\<open>restart\<close>
  require pass the handler's presence test.
\<close>

record body =
  b_token :: "string option"
  b_serverId :: "string option"
  b_userUuid :: "string option"
  b_action :: "string option"
  b_command :: "string option"
  b_start_fields :: bool
  b_path :: "string option"
  b_newName :: "string option"
  b_content :: "string option"
  b_contentBase64 :: "string option"
  b_from :: "string option"
  b_to :: "string option"
  b_paths :: "string list option"
  b_archiveName :: "string option"
  b_destination :: "string option"

definition empty_body :: body where
  "empty_body =
     \<lparr>b_token = None, b_serverId = None, b_userUuid = None, b_action = None,
      b_command = None, b_start_fields = False, b_path = None, b_newName = None,
      b_content = None, b_contentBase64 = None, b_from = None, b_to = None,
      b_paths = None, b_archiveName = None, b_destination = None\<rparr>"

text \<open>
  A value placed in a reply is either the result of an awaited call or the promise
  itself; \<^verbatim>\<open>JSON.stringify\<close> writes a promise as an empty object.
\<close>

datatype 'a js_async = Awaited 'a | PromiseOf 'a

definition json_serverStatus :: "server_status js_async \<Rightarrow> string" where
  "json_serverStatus v =
     (case v of
        Awaited Running \<Rightarrow> ''\"running\"''
      | Awaited Stopped \<Rightarrow> ''\"stopped\"''
      | PromiseOf _ \<Rightarrow> ''{}'')"

datatype unarchive_result = ResultOk string | ResultError string error

datatype mass_result = MassDone string | MassError string error

text \<open>Of a reply body only what the properties below read is kept.\<close>

datatype payload =
    NoDetail
  | ServerStatusBody "server_status js_async"
  | MassBody "mass_result list"
  | UnarchiveBody bool "unarchive_result list"

record reply =
  code :: nat
  payload :: payload

definition send :: "nat \<Rightarrow> reply" where
  "send c = \<lparr>code = c, payload = NoDetail\<rparr>"

record zip_entry =
  entryName :: string
  isDirectory :: bool

record rar_file =
  fileHeader :: "(string \<times> bool) option"
  extraction :: bool

text \<open>
  What the handlers read from outside: the configured token, the working directory, the
  clock, the remote permission service, the database, the container runtime, the file
  system (each call with its outcome; \<open>fs_stat\<close> gives the directory flag and the
  size) and the archive libraries (\<^term>\<open>None\<close> where the library throws).
\<close>

record env =
  config_token :: string
  cwd :: string
  now :: int
  getTime :: "string \<Rightarrow> int option"
  userIsAdmin :: "string \<Rightarrow> bool"
  hasPermission :: "string \<Rightarrow> string \<Rightarrow> bool"
  db_ok :: bool
  inspect_of :: "container \<Rightarrow> inspect_result"
  fs_stat :: "string \<Rightarrow> (bool \<times> nat) option"
  fs_readdir :: "string \<Rightarrow> bool"
  fs_readFile :: "string \<Rightarrow> bool"
  fs_writeFile :: "string \<Rightarrow> bool"
  fs_mkdir :: "string \<Rightarrow> bool"
  fs_rename :: "string \<Rightarrow> string \<Rightarrow> bool"
  fs_rm :: "string \<Rightarrow> bool"
  writeZip :: "string \<Rightarrow> bool"
  byteLength :: "bool \<Rightarrow> string \<Rightarrow> nat"
  zip_entries :: "string \<Rightarrow> zip_entry list option"
  tar_list :: "string \<Rightarrow> string list option"
  tar_onentry :: "string \<Rightarrow> string list option"
  rar_available :: bool
  rar_files :: "string \<Rightarrow> rar_file list option"

definition bindE :: "error + 'a \<Rightarrow> ('a \<Rightarrow> error + 'b) \<Rightarrow> error + 'b" where
  "bindE m f = (case m of Inl e \<Rightarrow> Inl e | Inr x \<Rightarrow> f x)"

text \<open>An awaited file-system call outside any \<^verbatim>\<open>try\<close>.\<close>

definition awaitFs :: "bool \<Rightarrow> error + unit" where
  "awaitFs ok = (if ok then Inr () else Inl FsError)"

subsection \<open>File manager\<close>

definition the_string :: "string option \<Rightarrow> string" where
  "the_string v = (case v of Some s \<Rightarrow> s | None \<Rightarrow> [])"

text \<open>\<^verbatim>\<open>validateAuth\<close>: \<^term>\<open>True\<close> is \<^verbatim>\<open>{ ok: true }\<close>.\<close>

definition validateAuth :: "env \<Rightarrow> body \<Rightarrow> bool" where
  "validateAuth e b =
     (if falsy (b_token b) then False
      else if b_token b \<noteq> Some (config_token e) then False
      else if falsy (b_serverId b) then False
      else if falsy (b_userUuid b) then False
      else True)"

definition ensurePermission :: "env \<Rightarrow> world \<Rightarrow> body \<Rightarrow> error + nat" where
  "ensurePermission e w b =
     (case getServer (the_string (b_serverId b)) w of
        None \<Rightarrow> Inl ServidorNaoEncontrado
      | Some r \<Rightarrow>
          if hasPermission e (the_string (b_userUuid b)) (the_string (b_serverId b))
          then Inr r else Inl SemPermissao)"

definition handleList :: "env \<Rightarrow> body \<Rightarrow> error + reply" where
  "handleList e b =
     bindE (sanitizeRelative (b_path b)) (\<lambda>rel.
     bindE (resolveServerPath (cwd e) (the_string (b_serverId b)) rel) (\<lambda>dirAbs.
       if \<not> fs_readdir e dirAbs then Inr (send 404) else Inr (send 200)))"

definition handleRead :: "env \<Rightarrow> body \<Rightarrow> error + reply" where
  "handleRead e b =
     (if falsy (b_path b) then Inr (send 400)
      else
        bindE (sanitizeRelative (b_path b)) (\<lambda>rel.
        bindE (resolveServerPath (cwd e) (the_string (b_serverId b)) rel) (\<lambda>fileAbs.
          case fs_stat e fileAbs of
            None \<Rightarrow> Inr (send 404)
          | Some (isDir, sz) \<Rightarrow>
              if isDir then Inr (send 400)
              else if sz > 2 * 1024 * 1024 then Inr (send 413)
              else bindE (awaitFs (fs_readFile e fileAbs)) (\<lambda>_. Inr (send 200)))))"

definition handleWrite :: "env \<Rightarrow> body \<Rightarrow> error + reply" where
  "handleWrite e b =
     (if falsy (b_path b) then Inr (send 400)
      else if b_content b = None then Inr (send 400)
      else
        bindE (sanitizeRelative (b_path b)) (\<lambda>rel.
        bindE (resolveServerPath (cwd e) (the_string (b_serverId b)) rel) (\<lambda>fileAbs.
        bindE (awaitFs (fs_mkdir e (path_dirname fileAbs))) (\<lambda>_.
        bindE (awaitFs (fs_writeFile e fileAbs)) (\<lambda>_. Inr (send 200))))))"

definition handleRename :: "env \<Rightarrow> body \<Rightarrow> error + reply" where
  "handleRename e b =
     (if falsy (b_path b) \<or> falsy (b_newName b) then Inr (send 400)
      else if \<exists>c \<in> set (the_string (b_newName b)). is_sep c then Inr (send 400)
      else
        bindE (sanitizeRelative (b_path b)) (\<lambda>rel.
        bindE (resolveServerPath (cwd e) (the_string (b_serverId b)) rel) (\<lambda>fileAbs.
          case fs_stat e fileAbs of
            None \<Rightarrow> Inr (send 404)
          | Some _ \<Rightarrow>
              (let newAbs = path_join [path_dirname fileAbs, the_string (b_newName b)]
               in if \<not> fs_rename e fileAbs newAbs then Inr (send 500)
                  else
                    bindE (sanitizeRelative
                             (Some (path_relative (cwd e)
                                      (path_join [BASE_SERVER_PATH, the_string (b_serverId b)])
                                      newAbs)))
                      (\<lambda>_. Inr (send 200))))))"

definition handleDownload :: "env \<Rightarrow> body \<Rightarrow> error + reply" where
  "handleDownload e b =
     (if falsy (b_path b) then Inr (send 400)
      else
        bindE (sanitizeRelative (b_path b)) (\<lambda>rel.
        bindE (resolveServerPath (cwd e) (the_string (b_serverId b)) rel) (\<lambda>fileAbs.
          case fs_stat e fileAbs of
            None \<Rightarrow> Inr (send 404)
          | Some (isDir, sz) \<Rightarrow>
              if isDir then Inr (send 400)
              else bindE (awaitFs (fs_readFile e fileAbs)) (\<lambda>_. Inr (send 200)))))"

text \<open>
  One path of a \<^verbatim>\<open>mass\<close> request: any exception is caught and reported in the entry
  (\<^verbatim>\<open>fs.rm\<close> when deleting, \<^verbatim>\<open>fs.stat\<close> when archiving).
\<close>

definition mass_entry :: "env \<Rightarrow> string \<Rightarrow> bool \<Rightarrow> string \<Rightarrow> mass_result" where
  "mass_entry e serverId archive p =
     (case bindE (sanitizeRelative (Some p)) (\<lambda>rel.
           bindE (resolveServerPath (cwd e) serverId rel) (\<lambda>abs.
             if (if archive then fs_stat e abs = None else \<not> fs_rm e abs)
             then Inl FsError else Inr rel)) of
        Inl err \<Rightarrow> MassError p err
      | Inr rel \<Rightarrow> MassDone (''/'' @ rel))"

text \<open>\<^verbatim>\<open>String(n)\<close> for an integer: the decimal digits, built from the last one.\<close>

definition digit_char :: "nat \<Rightarrow> char" where
  "digit_char d = char_of (d + 48)"

function decimal_digits :: "nat \<Rightarrow> string \<Rightarrow> string" where
  "decimal_digits n acc =
     (if n div 10 = 0 then digit_char (n mod 10) # acc
      else decimal_digits (n div 10) (digit_char (n mod 10) # acc))"
  by pat_completeness auto
termination
  by (relation "measure fst") auto

definition string_of_number :: "int \<Rightarrow> string" where
  "string_of_number i =
     (if 0 \<le> i then decimal_digits (nat i) [] else CHR ''-'' # decimal_digits (nat (- i)) [])"

text \<open>\<^verbatim>\<open>n.replace(/\.zip$/i, '')\<close>.\<close>

definition drop_zip_suffix :: "string \<Rightarrow> string" where
  "drop_zip_suffix n =
     (if suffix ''.zip'' (toLowerCase n) then take (length n - 4) n else n)"

definition handleMass :: "env \<Rightarrow> body \<Rightarrow> error + reply" where
  "handleMass e b =
     (case b_paths b of
        None \<Rightarrow> Inr (send 400)
      | Some paths \<Rightarrow>
          if paths = [] then Inr (send 400)
          else if b_action b \<noteq> Some ''delete'' \<and> b_action b \<noteq> Some ''archive'' then Inr (send 400)
          else
            (let serverId = the_string (b_serverId b);
                 baseRoot = path_join [BASE_SERVER_PATH, serverId]
             in if b_action b = Some ''delete''
                then Inr \<lparr>code = 200,
                          payload = MassBody (map (mass_entry e serverId False) paths)\<rparr>
                else
                  (let zipName = (if \<not> falsy (b_archiveName b)
                                  then drop_zip_suffix (the_string (b_archiveName b))
                                  else ''archive-'' @ string_of_number (now e));
                       finalZipAbs = path_join [baseRoot, zipName @ ''.zip''];
                       results = map (mass_entry e serverId True) paths
                   in bindE (awaitFs (writeZip e finalZipAbs)) (\<lambda>_.
                      bindE (sanitizeRelative (Some (path_relative (cwd e) baseRoot finalZipAbs)))
                        (\<lambda>_. Inr \<lparr>code = 200, payload = MassBody results\<rparr>)))))"

definition handleMkdir :: "env \<Rightarrow> body \<Rightarrow> error + reply" where
  "handleMkdir e b =
     (if falsy (b_path b) then Inr (send 400)
      else
        bindE (sanitizeRelative (b_path b)) (\<lambda>rel.
          if rel = [] then Inr (send 400)
          else
            bindE (resolveServerPath (cwd e) (the_string (b_serverId b)) rel) (\<lambda>abs.
              if \<not> fs_mkdir e abs then Inr (send 500) else Inr (send 200))))"

text \<open>\<^verbatim>\<open>s.replace(/\/$/, '')\<close>.\<close>

definition drop_final_slash :: "string \<Rightarrow> string" where
  "drop_final_slash s = (if suffix ''/'' s then butlast s else s)"

definition handleMove :: "env \<Rightarrow> body \<Rightarrow> error + reply" where
  "handleMove e b =
     (if falsy (b_from b) \<or> falsy (b_to b) then Inr (send 400)
      else
        bindE (sanitizeRelative (b_from b)) (\<lambda>relFrom.
        bindE (sanitizeRelative (b_to b)) (\<lambda>relToRaw.
        bindE (resolveServerPath (cwd e) (the_string (b_serverId b)) relFrom) (\<lambda>absFrom.
          case fs_stat e absFrom of
            None \<Rightarrow> Inr (send 404)
          | Some _ \<Rightarrow>
              bindE (resolveServerPath (cwd e) (the_string (b_serverId b)) relToRaw) (\<lambda>absToCandidate.
                (let toIsDir = (case fs_stat e absToCandidate of
                                  Some (isDir, _) \<Rightarrow> isDir | None \<Rightarrow> False);
                     finalRelTo =
                       (if toIsDir
                        then (if relToRaw \<noteq> [] then relToRaw @ ''/'' else []) @ path_basename relFrom
                        else if suffix ''/'' (the_string (b_to b))
                        then drop_final_slash relToRaw @ ''/'' @ path_basename relFrom
                        else relToRaw)
                 in bindE (resolveServerPath (cwd e) (the_string (b_serverId b)) finalRelTo) (\<lambda>absTo.
                    bindE (awaitFs (fs_mkdir e (path_dirname absTo))) (\<lambda>_.
                      if \<not> fs_rename e absFrom absTo then Inr (send 500)
                      else Inr (send 200)))))))))"

definition handleUpload :: "env \<Rightarrow> body \<Rightarrow> error + reply" where
  "handleUpload e b =
     (if falsy (b_path b) then Inr (send 400)
      else
        bindE (sanitizeRelative (b_path b)) (\<lambda>rel.
          if rel = [] \<or> suffix ''/'' (the_string (b_path b)) then Inr (send 400)
          else if falsy (b_contentBase64 b) \<and> b_content b = None then Inr (send 400)
          else
            (let len = (if \<not> falsy (b_contentBase64 b)
                        then byteLength e True (the_string (b_contentBase64 b))
                        else byteLength e False (the_string (b_content b)))
             in if len > 25 * 1024 * 1024 then Inr (send 413)
                else
                  bindE (resolveServerPath (cwd e) (the_string (b_serverId b)) rel) (\<lambda>abs.
                  bindE (awaitFs (fs_mkdir e (path_dirname abs))) (\<lambda>_.
                    if \<not> fs_writeFile e abs then Inr (send 500) else Inr (send 200))))))"

subsection \<open>Unarchive\<close>

text \<open>\<^verbatim>\<open>p.replace(/^([A-Za-z]:)?[\\/]+/, '')\<close>.\<close>

fun strip_drive_and_seps :: "string \<Rightarrow> string" where
  "strip_drive_and_seps (a # b # c # r) =
     (if is_alpha a \<and> b = CHR '':'' \<and> is_sep c then dropWhile is_sep r
      else if is_sep a then dropWhile is_sep (b # c # r)
      else a # b # c # r)"
| "strip_drive_and_seps p = (if p \<noteq> [] \<and> is_sep (hd p) then dropWhile is_sep p else p)"

definition sanitizeArchiveEntry :: "string \<Rightarrow> error + string" where
  "sanitizeArchiveEntry p =
     (let clean = unbackslash (strip_drive_and_seps p);
          parts = filter (\<lambda>seg. seg \<noteq> [] \<and> seg \<noteq> ''.'') (split_on is_slash clean)
      in if ''..'' \<in> set parts then Inl EntradaInvalidaEmArchive
         else Inr (joinWith ''/'' parts))"

text \<open>\<^verbatim>\<open>name.replace(/\.[^.]+$/, '')\<close>: the text from the last dot on, when that dot is not
  the last character.\<close>

definition drop_last_extension :: "string \<Rightarrow> string" where
  "drop_last_extension name =
     (let ext = takeWhile (\<lambda>c. c \<noteq> CHR ''.'') (rev name)
      in if ext \<noteq> [] \<and> length ext < length name
         then take (length name - length ext - 1) name else name)"

definition deriveArchiveBase :: "string \<Rightarrow> string" where
  "deriveArchiveBase name =
     (let lower = toLowerCase name
      in if suffix ''.tar.gz'' lower then take (length name - 7) name
         else if suffix ''.tgz'' lower then take (length name - 4) name
         else if suffix ''.zip'' lower \<or> suffix ''.rar'' lower \<or> suffix ''.tar'' lower
         then take (length name - 4) name
         else drop_last_extension name)"

text \<open>
  The test that decides \<^verbatim>\<open>flatten\<close> on a list of entry names, the same in the three
  branches: the result is \<^verbatim>\<open>rootCandidate\<close> when \<^verbatim>\<open>flatten\<close> is set.
\<close>

definition detect_flatten :: "string \<Rightarrow> string list \<Rightarrow> string option" where
  "detect_flatten archiveBaseName names =
     (case names of
        [] \<Rightarrow> None
      | n0 # _ \<Rightarrow>
          (let firstTop = hd (split_on is_slash n0)
           in if firstTop \<noteq> []
                 \<and> list_all (\<lambda>n. n = firstTop \<or> prefix (firstTop @ ''/'') n) names
                 \<and> firstTop = archiveBaseName
              then Some firstTop else None))"

text \<open>The name under which an entry is extracted: \<^term>\<open>None\<close> where the loop
  \<^verbatim>\<open>continue\<close>s.\<close>

definition flattened_name :: "string option \<Rightarrow> string \<Rightarrow> string option" where
  "flattened_name rootCandidate name =
     (if name = [] then None
      else case rootCandidate of
             None \<Rightarrow> Some name
           | Some root \<Rightarrow>
               if name = root then None
               else
                 (let n = (if prefix (root @ ''/'') name
                           then drop (length root + 1) name else name)
                  in if n = [] then None else Some n))"

text \<open>
  One entry of a zip archive: what is written, and the line of \<^verbatim>\<open>results\<close>.  An
  exception anywhere is caught and reported for the entry; the calls made before it
  stay made.
\<close>

definition report_entry ::
  "env \<Rightarrow> string \<Rightarrow> string \<Rightarrow> string \<Rightarrow> effect list \<Rightarrow> bool \<Rightarrow> effect list \<times> unarchive_result list" where
  "report_entry e serverId rawName finalAbs written ok =
     (written,
      [if \<not> ok then ResultError rawName FsError
       else case sanitizeRelative
                   (Some (path_relative (cwd e) (path_join [BASE_SERVER_PATH, serverId]) finalAbs)) of
              Inl err \<Rightarrow> ResultError rawName err
            | Inr relOut \<Rightarrow> ResultOk (''/'' @ relOut)])"

definition write_entry :: "env \<Rightarrow> string \<Rightarrow> effect list \<times> bool" where
  "write_entry e finalAbs =
     (if \<not> fs_mkdir e (path_dirname finalAbs) then ([FsMkdir (path_dirname finalAbs)], False)
      else ([FsMkdir (path_dirname finalAbs), FsWriteFile finalAbs], fs_writeFile e finalAbs))"

definition extract_zip_entry ::
  "env \<Rightarrow> string \<Rightarrow> string \<Rightarrow> string option \<Rightarrow> zip_entry \<Rightarrow> effect list \<times> unarchive_result list" where
  "extract_zip_entry e serverId destAbs rootCandidate entry =
     (case sanitizeArchiveEntry (entryName entry) of
        Inl err \<Rightarrow> ([], [ResultError (entryName entry) err])
      | Inr clean \<Rightarrow>
          (case flattened_name rootCandidate clean of
             None \<Rightarrow> ([], [])
           | Some name \<Rightarrow>
               (let finalAbs = path_join [destAbs, name]
                in if \<not> prefix (path_resolve (cwd e) [destAbs]) finalAbs
                   then ([], [ResultError (entryName entry) PathForaDoDestino])
                   else if isDirectory entry
                   then report_entry e serverId (entryName entry) finalAbs
                          [FsMkdir finalAbs] (fs_mkdir e finalAbs)
                   else (case write_entry e finalAbs of
                           (written, ok) \<Rightarrow>
                             report_entry e serverId (entryName entry) finalAbs written ok))))"

definition extract_all :: "('a \<Rightarrow> effect list \<times> unarchive_result list) \<Rightarrow> 'a list \<Rightarrow> effect list \<times> unarchive_result list" where
  "extract_all f entries = (concat (map (fst \<circ> f) entries), concat (map (snd \<circ> f) entries))"

definition unzip ::
  "env \<Rightarrow> string \<Rightarrow> string \<Rightarrow> bool \<Rightarrow> string \<Rightarrow> zip_entry list
     \<Rightarrow> bool \<times> effect list \<times> unarchive_result list" where
  "unzip e serverId destAbs userProvidedDestination archiveBaseName entries =
     (let rootCandidate =
            (if userProvidedDestination
             then detect_flatten archiveBaseName
                    (filter (\<lambda>n. n \<noteq> []) (map (unbackslash \<circ> entryName) entries))
             else None)
      in (rootCandidate \<noteq> None,
          extract_all (extract_zip_entry e serverId destAbs rootCandidate) entries))"

definition extract_rar_file ::
  "env \<Rightarrow> string \<Rightarrow> string \<Rightarrow> string option \<Rightarrow> rar_file \<Rightarrow> effect list \<times> unarchive_result list" where
  "extract_rar_file e serverId destAbs rootCandidate file =
     (case fileHeader file of
        None \<Rightarrow> ([], [])
      | Some (hname, isDir) \<Rightarrow>
          (case sanitizeArchiveEntry hname of
             Inl err \<Rightarrow> ([], [ResultError hname err])
           | Inr clean \<Rightarrow>
               (case flattened_name rootCandidate clean of
                  None \<Rightarrow> ([], [])
                | Some name \<Rightarrow>
                    (let finalAbs = path_join [destAbs, name]
                     in if \<not> prefix (path_resolve (cwd e) [destAbs]) finalAbs
                        then ([], [ResultError hname PathForaDoDestino])
                        else if isDir
                        then report_entry e serverId hname finalAbs
                               [FsMkdir finalAbs] (fs_mkdir e finalAbs)
                        else if extraction file
                        then (case write_entry e finalAbs of
                                (written, ok) \<Rightarrow> report_entry e serverId hname finalAbs written ok)
                        else report_entry e serverId hname finalAbs [] True))))"

definition unrar ::
  "env \<Rightarrow> string \<Rightarrow> string \<Rightarrow> bool \<Rightarrow> string \<Rightarrow> rar_file list
     \<Rightarrow> bool \<times> effect list \<times> unarchive_result list" where
  "unrar e serverId destAbs userProvidedDestination archiveBaseName files =
     (let rootCandidate =
            (if userProvidedDestination
             then detect_flatten archiveBaseName
                    (filter (\<lambda>n. n \<noteq> [])
                       (map (\<lambda>f. case fileHeader f of Some (n, _) \<Rightarrow> unbackslash n | None \<Rightarrow> [])
                          files))
             else None)
      in (rootCandidate \<noteq> None,
          extract_all (extract_rar_file e serverId destAbs rootCandidate) files))"

text \<open>
  The \<^verbatim>\<open>.tar.gz\<close> branch leaves the extraction to the tar library, called with
  \<^verbatim>\<open>strip: 1\<close> when \<^verbatim>\<open>flatten\<close> is set; the handler only reports each entry the
  library announces.
\<close>

definition tar_result :: "string \<Rightarrow> string \<Rightarrow> unarchive_result list" where
  "tar_result destRel p =
     (case sanitizeArchiveEntry p of
        Inl err \<Rightarrow> [ResultError p err]
      | Inr clean \<Rightarrow>
          if clean = [] then []
          else (case sanitizeRelative (Some (unbackslash (path_join [destRel, clean]))) of
                  Inl err \<Rightarrow> [ResultError p err]
                | Inr r \<Rightarrow> [ResultOk (''/'' @ r)]))"

definition untar ::
  "env \<Rightarrow> string \<Rightarrow> string \<Rightarrow> string \<Rightarrow> bool \<Rightarrow> string
     \<Rightarrow> (bool \<times> unarchive_result list) option \<times> effect list" where
  "untar e absArchive destRel destAbs userProvidedDestination archiveBaseName =
     (case (if userProvidedDestination
            then map_option (\<lambda>collected. detect_flatten archiveBaseName (map unbackslash collected))
                   (tar_list e absArchive)
            else Some None) of
        None \<Rightarrow> (None, [])
      | Some rootCandidate \<Rightarrow>
          (let stripComponents = (if rootCandidate \<noteq> None then 1 else 0)
           in case tar_onentry e absArchive of
                None \<Rightarrow> (None, [TarExtract absArchive destAbs stripComponents])
              | Some paths \<Rightarrow>
                  (Some (rootCandidate \<noteq> None, concat (map (tar_result destRel) paths)),
                   [TarExtract absArchive destAbs stripComponents])))"

text \<open>
  The body of the \<^verbatim>\<open>try\<close> of \<^verbatim>\<open>handleUnarchive\<close> with its \<^verbatim>\<open>catch\<close>: the final
  reply and the calls made to the file system and to the tar library.
\<close>

definition unarchive_extract ::
  "env \<Rightarrow> string \<Rightarrow> string \<Rightarrow> bool \<Rightarrow> bool \<Rightarrow> string \<Rightarrow> bool \<Rightarrow> string \<Rightarrow> string
     \<Rightarrow> reply \<times> effect list" where
  "unarchive_extract e serverId absArchive isZip isTarGz archiveBaseName userProvidedDestination
     destRel destAbs =
     (if isZip then
        (case zip_entries e absArchive of
           None \<Rightarrow> (send 500, [])
         | Some entries \<Rightarrow>
             (case unzip e serverId destAbs userProvidedDestination archiveBaseName entries of
                (flatten, written, results) \<Rightarrow>
                  (\<lparr>code = 200, payload = UnarchiveBody flatten results\<rparr>, written)))
      else if isTarGz then
        (case untar e absArchive destRel destAbs userProvidedDestination archiveBaseName of
           (None, called) \<Rightarrow> (send 500, called)
         | (Some (flatten, results), called) \<Rightarrow>
             (\<lparr>code = 200, payload = UnarchiveBody flatten results\<rparr>, called))
      else if \<not> rar_available e then (send 500, [])
      else
        (case rar_files e absArchive of
           None \<Rightarrow> (send 500, [])
         | Some files \<Rightarrow>
             (case unrar e serverId destAbs userProvidedDestination archiveBaseName files of
                (flatten, written, results) \<Rightarrow>
                  (\<lparr>code = 200, payload = UnarchiveBody flatten results\<rparr>, written))))"

text \<open>
  \<^verbatim>\<open>handleUnarchive\<close>: the reply, and the calls made to the file system in their order.
  The first one creates the destination directory; its failure is ignored.
\<close>

definition handleUnarchive :: "env \<Rightarrow> body \<Rightarrow> error + reply \<times> effect list" where
  "handleUnarchive e b =
     (if falsy (b_path b) then Inr (send 400, [])
      else
        bindE (sanitizeRelative (b_path b)) (\<lambda>relArchive.
        bindE (resolveServerPath (cwd e) (the_string (b_serverId b)) relArchive) (\<lambda>absArchive.
          case fs_stat e absArchive of
            None \<Rightarrow> Inr (send 404, [])
          | Some (isDir, _) \<Rightarrow>
              if isDir then Inr (send 400, [])
              else
                (let lower = toLowerCase relArchive;
                     isZip = suffix ''.zip'' lower;
                     isRar = suffix ''.rar'' lower;
                     isTarGz = (suffix ''.tar.gz'' lower \<or> suffix ''.tgz'' lower);
                     archiveBaseName = deriveArchiveBase (path_basename relArchive);
                     userProvidedDestination = (\<not> falsy (b_destination b))
                 in if \<not> isZip \<and> \<not> isRar \<and> \<not> isTarGz then Inr (send 400, [])
                    else
                      bindE (sanitizeRelative (if userProvidedDestination then b_destination b
                                               else Some archiveBaseName)) (\<lambda>destRel.
                      bindE (resolveServerPath (cwd e) (the_string (b_serverId b)) destRel) (\<lambda>destAbs.
                        (case unarchive_extract e (the_string (b_serverId b)) absArchive isZip
                                isTarGz archiveBaseName userProvidedDestination destRel destAbs of
                           (rep, made) \<Rightarrow> Inr (rep, FsMkdir destAbs # made))))))))"

text \<open>Of the outcome of a handler, \<^verbatim>\<open>interpretFileManager\<close> passes on the reply.\<close>

definition replied :: "error + reply \<times> effect list \<Rightarrow> error + reply" where
  "replied r = bindE r (\<lambda>x. Inr (fst x))"

definition interpretFileManager :: "env \<Rightarrow> world \<Rightarrow> body option \<Rightarrow> string \<Rightarrow> error + reply" where
  "interpretFileManager e w request_body subPath =
     (let b = (case request_body of Some b \<Rightarrow> b | None \<Rightarrow> empty_body)
      in if \<not> validateAuth e b then Inr (send 400)
         else (case ensurePermission e w b of
                 Inl _ \<Rightarrow> Inr (send 403)
               | Inr _ \<Rightarrow>
                   if subPath = ''list'' then handleList e b
                   else if subPath = ''read'' then handleRead e b
                   else if subPath = ''write'' then handleWrite e b
                   else if subPath = ''rename'' then handleRename e b
                   else if subPath = ''download'' then handleDownload e b
                   else if subPath = ''mass'' then handleMass e b
                   else if subPath = ''mkdir'' then handleMkdir e b
                   else if subPath = ''move'' then handleMove e b
                   else if subPath = ''upload'' then handleUpload e b
                   else if subPath = ''unarchive'' then replied (handleUnarchive e b)
                   else Inr (send 404)))"




subsection \<open>Control handlers\<close>

text \<open>
  The four tests with which \<^verbatim>\<open>CreateServer\<close>, \<^verbatim>\<open>DeleteServer\<close>,
  \<^verbatim>\<open>GetServerStatus\<close>, \<^verbatim>\<open>GetServerUsage\<close> and \<^verbatim>\<open>SendActionServer\<close> all begin; the
  result is the early reply, if any.
\<close>

definition control_checks :: "env \<Rightarrow> body \<Rightarrow> reply option" where
  "control_checks e b =
     (if falsy (b_token b) then Some (send 400)
      else if b_token b \<noteq> Some (config_token e) then Some (send 403)
      else if falsy (b_serverId b) then Some (send 400)
      else if falsy (b_userUuid b) then Some (send 400)
      else None)"

definition VerifyStatus :: "env \<Rightarrow> body option \<Rightarrow> error + reply" where
  "VerifyStatus e request_body =
     (case request_body of
        None \<Rightarrow> Inl TypeError
      | Some b \<Rightarrow>
          if b_token b \<noteq> Some (config_token e) then Inr (send 401) else Inr (send 200))"

definition CreateServer :: "env \<Rightarrow> world \<Rightarrow> body option \<Rightarrow> (error + reply) \<times> world" where
  "CreateServer e w request_body =
     (case request_body of
        None \<Rightarrow> (Inl TypeError, w)
      | Some b \<Rightarrow>
          (case control_checks e b of
             Some r \<Rightarrow> (Inr r, w)
           | None \<Rightarrow>
               if \<not> userIsAdmin e (the_string (b_userUuid b)) then (Inr (send 403), w)
               else
                 (Inr (send 200),
                  if \<not> db_ok e then w
                  else (case create (fs_mkdir e (serverPath (the_string (b_serverId b))))
                               (the_string (b_serverId b)) w of
                          Inl _ \<Rightarrow> w
                        | Inr w' \<Rightarrow> w'))))"

definition DeleteServer :: "env \<Rightarrow> world \<Rightarrow> body option \<Rightarrow> (error + reply) \<times> world" where
  "DeleteServer e w request_body =
     (case request_body of
        None \<Rightarrow> (Inl TypeError, w)
      | Some b \<Rightarrow>
          (case control_checks e b of
             Some r \<Rightarrow> (Inr r, w)
           | None \<Rightarrow>
               if \<not> userIsAdmin e (the_string (b_userUuid b)) then (Inr (send 403), w)
               else (case getServer (the_string (b_serverId b)) w of
                       None \<Rightarrow> (Inr (send 404), w)
                     | Some r \<Rightarrow> (Inr (send 200), fst (delete r w)))))"

definition inspect_server :: "env \<Rightarrow> server \<Rightarrow> inspect_result" where
  "inspect_server e s = (case container s of Some c \<Rightarrow> inspect_of e c | None \<Rightarrow> InspectFailed)"

definition getStatus_of :: "env \<Rightarrow> server \<Rightarrow> server_status \<times> server" where
  "getStatus_of e s = getStatus (getTime e) (now e) (inspect_server e s) s"

text \<open>
  \<^verbatim>\<open>GetServerStatus\<close> places the call \<^verbatim>\<open>server.getStatus()\<close> itself in the reply.
  The call still runs, so the instance is left as \<^verbatim>\<open>getStatus\<close> leaves it once the
  promise has settled.
\<close>

definition GetServerStatus :: "env \<Rightarrow> world \<Rightarrow> body option \<Rightarrow> (error + reply) \<times> world" where
  "GetServerStatus e w request_body =
     (case request_body of
        None \<Rightarrow> (Inl TypeError, w)
      | Some b \<Rightarrow>
          (case control_checks e b of
             Some r \<Rightarrow> (Inr r, w)
           | None \<Rightarrow>
               (case getServer (the_string (b_serverId b)) w of
                  None \<Rightarrow> (Inr (send 404), w)
                | Some r \<Rightarrow>
                    if \<not> hasPermission e (the_string (b_userUuid b)) (the_string (b_serverId b))
                    then (Inr (send 403), w)
                    else (case heap w r of
                            None \<Rightarrow> (Inl TypeError, w)
                          | Some s \<Rightarrow>
                              (Inr \<lparr>code = 200,
                                    payload = ServerStatusBody (PromiseOf (fst (getStatus_of e s)))\<rparr>,
                               w\<lparr>heap := (heap w)(r \<mapsto> snd (getStatus_of e s))\<rparr>)))))"

text \<open>
  \<^verbatim>\<open>GetServerUsage\<close> awaits \<^verbatim>\<open>getUsages()\<close>, which awaits \<^verbatim>\<open>getStatus()\<close>, and then
  \<^verbatim>\<open>getStatus()\<close> once more.
\<close>

definition GetServerUsage :: "env \<Rightarrow> world \<Rightarrow> body option \<Rightarrow> (error + reply) \<times> world" where
  "GetServerUsage e w request_body =
     (case request_body of
        None \<Rightarrow> (Inl TypeError, w)
      | Some b \<Rightarrow>
          (case control_checks e b of
             Some r \<Rightarrow> (Inr r, w)
           | None \<Rightarrow>
               (case getServer (the_string (b_serverId b)) w of
                  None \<Rightarrow> (Inr (send 404), w)
                | Some r \<Rightarrow>
                    if \<not> hasPermission e (the_string (b_userUuid b)) (the_string (b_serverId b))
                    then (Inr (send 403), w)
                    else (case heap w r of
                            None \<Rightarrow> (Inl TypeError, w)
                          | Some s \<Rightarrow>
                              (Inr (send 200),
                               w\<lparr>heap := (heap w)
                                    (r \<mapsto> snd (getStatus_of e (snd (getStatus_of e s))))\<rparr>)))))"

text \<open>
  \<^verbatim>\<open>SendActionServer\<close> calls the lifecycle method without awaiting it and replies at
  once, so the reply depends on the validation only.
\<close>

definition SendActionServer :: "env \<Rightarrow> world \<Rightarrow> body option \<Rightarrow> error + reply" where
  "SendActionServer e w request_body =
     (case request_body of
        None \<Rightarrow> Inl TypeError
      | Some b \<Rightarrow>
          (case control_checks e b of
             Some r \<Rightarrow> Inr r
           | None \<Rightarrow>
               (case getServer (the_string (b_serverId b)) w of
                  None \<Rightarrow> Inr (send 404)
                | Some r \<Rightarrow>
                    if \<not> hasPermission e (the_string (b_userUuid b)) (the_string (b_serverId b))
                    then Inr (send 403)
                    else if falsy (b_action b) then Inr (send 400)
                    else if b_action b = Some ''start'' \<or> b_action b = Some ''restart''
                    then (if \<not> b_start_fields b then Inr (send 400) else Inr (send 200))
                    else if b_action b = Some ''stop''
                    then (if falsy (b_command b) then Inr (send 400) else Inr (send 200))
                    else if b_action b = Some ''kill'' then Inr (send 200)
                    else if b_action b = Some ''command''
                    then (if falsy (b_command b) then Inr (send 400) else Inr (send 200))
                    else Inr (send 400))))"

subsection \<open>Routing\<close>

definition filemanager_sub :: "string \<Rightarrow> string" where
  "filemanager_sub action =
     (case split_on is_slash action of
        _ # sub # _ \<Rightarrow> if sub = [] then ''list'' else sub
      | _ \<Rightarrow> ''list'')"

definition interpretServers ::
  "env \<Rightarrow> world \<Rightarrow> body option \<Rightarrow> string option \<Rightarrow> (error + reply) \<times> world" where
  "interpretServers e w request_body action =
     (if \<not> falsy action \<and> prefix ''filemanager'' (the_string action)
      then (interpretFileManager e w request_body (filemanager_sub (the_string action)), w)
      else if action = Some ''delete'' then DeleteServer e w request_body
      else if action = Some ''status'' then GetServerStatus e w request_body
      else if action = Some ''action'' then (SendActionServer e w request_body, w)
      else if action = Some ''usage'' then GetServerUsage e w request_body
      else CreateServer e w request_body)"

text \<open>The test with which \<^verbatim>\<open>interpretServers\<close> hands a request to the file manager.\<close>

definition is_filemanager_action :: "string option \<Rightarrow> bool" where
  "is_filemanager_action action = (\<not> falsy action \<and> prefix ''filemanager'' (the_string action))"

datatype http_method = GET | POST | PUT | DELETE | PATCH | HEAD

datatype route = StatusRoute | ServersRoute

record request =
  pathname :: string
  http_method :: http_method
  request_body :: "body option"

text \<open>A character that \<^verbatim>\<open>.\<close> of a regular expression does not match.\<close>

definition is_line_terminator :: "char \<Rightarrow> bool" where
  "is_line_terminator c = (c = CHR 0x0A \<or> c = CHR 0x0D)"

text \<open>
  \<^verbatim>\<open>findMatchingApiRoute\<close>: the two patterns become the expressions
  \<^verbatim>\<open>^/api/v1/status/?$\<close> and \<^verbatim>\<open>^/api/v1/servers(\/(?<action>.*))?/?$\<close>, tried in this
  order; the result holds the route and the group \<^verbatim>\<open>action\<close>.
\<close>

definition findMatchingApiRoute :: "string \<Rightarrow> (route \<times> string option) option" where
  "findMatchingApiRoute p =
     (if p = ''/api/v1/status'' \<or> p = ''/api/v1/status/'' then Some (StatusRoute, None)
      else if \<not> prefix ''/api/v1/servers'' p then None
      else
        (case drop (length ''/api/v1/servers'') p of
           [] \<Rightarrow> Some (ServersRoute, None)
         | c # r \<Rightarrow>
             if c = CHR ''/'' \<and> \<not> (\<exists>x \<in> set r. is_line_terminator x)
             then Some (ServersRoute, Some r) else None))"

definition route_handles :: "route \<Rightarrow> http_method \<Rightarrow> bool" where
  "route_handles r m =
     (case r of StatusRoute \<Rightarrow> m = POST | ServersRoute \<Rightarrow> m = POST \<or> m = GET)"

definition handleRequest :: "env \<Rightarrow> world \<Rightarrow> request \<Rightarrow> reply \<times> world" where
  "handleRequest e w req =
     (case findMatchingApiRoute (pathname req) of
        None \<Rightarrow> (send 404, w)
      | Some (r, action) \<Rightarrow>
          if \<not> route_handles r (http_method req) then (send 405, w)
          else
            (case (case r of
                     StatusRoute \<Rightarrow> (VerifyStatus e (request_body req), w)
                   | ServersRoute \<Rightarrow> interpretServers e w (request_body req) action) of
               (Inl _, w') \<Rightarrow> (send 500, w')
             | (Inr rep, w') \<Rightarrow> (rep, w')))"

section \<open>Example inputs\<close>

text \<open>Concrete environments, registries and requests on which the properties are run.\<close>

definition example_env :: env where
  "example_env =
     \<lparr>config_token = ''secret'', cwd = ''/srv'', now = 1000, getTime = (\<lambda>_. None),
      userIsAdmin = (\<lambda>_. True), hasPermission = (\<lambda>_ _. True), db_ok = True,
      inspect_of = (\<lambda>_. InspectFailed), fs_stat = (\<lambda>_. Some (False, 10)),
      fs_readdir = (\<lambda>_. True), fs_readFile = (\<lambda>_. True), fs_writeFile = (\<lambda>_. True),
      fs_mkdir = (\<lambda>_. True), fs_rename = (\<lambda>_ _. True), fs_rm = (\<lambda>_. True),
      writeZip = (\<lambda>_. True), byteLength = (\<lambda>_ s. length s),
      zip_entries = (\<lambda>_. Some [\<lparr>entryName = ''pack/pack/a.txt'', isDirectory = False\<rparr>]),
      tar_list = (\<lambda>_. None), tar_onentry = (\<lambda>_. None), rar_available = False,
      rar_files = (\<lambda>_. None)\<rparr>"

definition example_world :: world where
  "example_world =
     \<lparr>heap = (\<lambda>_. None)(0 \<mapsto> new_Server ''s1''), servers = [0], nextRef = 1\<rparr>"

definition two_s1_world :: world where
  "two_s1_world =
     \<lparr>heap = ((\<lambda>_. None)(0 \<mapsto> new_Server ''s1''))(1 \<mapsto> new_Server ''s1''),
      servers = [0, 1], nextRef = 2\<rparr>"

definition example_body :: body where
  "example_body =
     empty_body\<lparr>b_token := Some ''secret'', b_serverId := Some ''s1'', b_userUuid := Some ''u1''\<rparr>"

definition example_start_env :: start_env where
  "example_start_env =
     \<lparr>now_ms = 1000, templates = [], pull_events = [], pull_result = None,
      create_result = Inr 7, start_result = None,
      inspect_results = (\<lambda>_. InspectData \<lparr>State_Status = ''running'', State_StartedAt = None\<rparr>),
      attach_result = Inr 3\<rparr>"


definition example_started :: server where
  "example_started = fst (snd (start example_start_env \<lparr>image = ''busybox''\<rparr> (new_Server ''s1'')))"

definition exited :: inspect_result where
  "exited = InspectData \<lparr>State_Status = ''exited'', State_StartedAt = None\<rparr>"

definition status_request :: request where
  "status_request =
     \<lparr>pathname = ''/api/v1/servers/status'', http_method = POST, request_body = Some example_body\<rparr>"

definition wrong_token_request :: request where
  "wrong_token_request =
     \<lparr>pathname = ''/api/v1/status'', http_method = POST,
      request_body = Some (empty_body\<lparr>b_token := Some ''wrong''\<rparr>)\<rparr>"

definition escape_request :: request where
  "escape_request =
     \<lparr>pathname = ''/api/v1/servers/filemanager/read'', http_method = POST,
      request_body = Some (example_body\<lparr>b_path := Some ''../../../etc/passwd''\<rparr>)\<rparr>"

definition create_wrong_token_request :: request where
  "create_wrong_token_request =
     \<lparr>pathname = ''/api/v1/servers/create'', http_method = POST,
      request_body = Some (example_body\<lparr>b_token := Some ''wrong''\<rparr>)\<rparr>"

definition list_escape_body :: body where
  "list_escape_body = example_body\<lparr>b_path := Some ''a/../..''\<rparr>"

definition abc_xyz_world :: world where
  "abc_xyz_world =
     \<lparr>heap = ((\<lambda>_. None)(0 \<mapsto> new_Server ''abc''))(1 \<mapsto> new_Server ''xyz''),
      servers = [0, 1], nextRef = 2\<rparr>"





section \<open>Properties of the registry\<close>

lemma wf_empty_world: "wf_world empty_world"
  by (simp add: wf_world_def empty_world_def)

lemma wf_create: "wf_world w \<Longrightarrow> create ok i w = Inr w' \<Longrightarrow> wf_world w'"
  by (fastforce simp: wf_world_def create_def less_Suc_eq split: if_splits)

lemma wf_delete: "wf_world w \<Longrightarrow> wf_world (fst (delete r w))"
  by (auto simp: wf_world_def delete_def Let_def split: option.splits)

lemma create_ok: "create True i w = Inr (w\<lparr>heap := (heap w)(nextRef w \<mapsto> new_Server i),
                  servers := servers w @ [nextRef w], nextRef := Suc (nextRef w)\<rparr>)"
  by (simp add: create_def)

lemma create_Inr:
  "create ok i w = Inr w' \<Longrightarrow>
     w' = w\<lparr>heap := (heap w)(nextRef w \<mapsto> new_Server i),
            servers := servers w @ [nextRef w], nextRef := Suc (nextRef w)\<rparr>"
  by (simp add: create_def split: if_splits)

lemma has_id_create_old:
  "wf_world w \<Longrightarrow> create ok i w = Inr w' \<Longrightarrow> r \<in> set (servers w) \<Longrightarrow> has_id w' u r = has_id w u r"
  by (auto simp: wf_world_def has_id_def dest!: create_Inr)

lemma has_id_create_new:
  "create ok i w = Inr w' \<Longrightarrow> has_id w' u (nextRef w) = (u = i)"
  by (auto simp: has_id_def new_Server_def dest!: create_Inr)

lemma find_cong_set: "(\<And>x. x \<in> set xs \<Longrightarrow> P x = Q x) \<Longrightarrow> find P xs = find Q xs"
  by (induction xs) auto

lemma find_append_case:
  "find P (xs @ ys) = (case find P xs of Some x \<Rightarrow> Some x | None \<Rightarrow> find P ys)"
  by (induction xs) auto

lemma getServer_create:
  assumes "wf_world w" "create ok i w = Inr w'"
  shows "getServer u w' = (case getServer u w of Some r \<Rightarrow> Some r
                           | None \<Rightarrow> if u = i then Some (nextRef w) else None)"
proof -
  have s: "servers w' = servers w @ [nextRef w]"
    using assms(2) by (auto dest!: create_Inr)
  have "find (has_id w' u) (servers w) = find (has_id w u) (servers w)"
    by (rule find_cong_set) (simp add: has_id_create_old[OF assms])
  moreover have "has_id w' u (nextRef w) = (u = i)"
    by (rule has_id_create_new[OF assms(2)])
  ultimately show ?thesis
    by (cases "find (has_id w u) (servers w)") (simp_all add: getServer_def s find_append_case)
qed

lemma getServer_earliest:
  "getServer u w = Some r \<Longrightarrow>
     \<exists>before after. servers w = before @ r # after \<and> has_id w u r \<and> (\<forall>x \<in> set before. \<not> has_id w u x)"
  unfolding getServer_def find_Some_iff
  by (metis (no_types, lifting) id_take_nth_drop in_set_conv_nth length_take min.absorb2 less_imp_le_nat nth_take)

text \<open>
  Claim C10.  \<^verbatim>\<open>Server.create(id)\<close> looks at no id of the registry: it throws when
  \<^verbatim>\<open>fs.mkdir\<close> fails, and otherwise returns with a fresh instance appended at the end
  of the registry.  So two calls with the same id, in any registry, both return and leave
  two different new instances with that id after the instances registered before; and
  \<^verbatim>\<open>getServer\<close> returns, for every id, the first instance with that id in
  registration order.
\<close>

theorem create_appends_without_uniqueness_check:
  assumes "wf_world w"
  shows "\<exists>w1 w2. create True i w = Inr w1 \<and> create True i w1 = Inr w2
           \<and> servers w2 = servers w @ [nextRef w, Suc (nextRef w)]
           \<and> nextRef w \<notin> set (servers w) \<and> Suc (nextRef w) \<notin> set (servers w)
           \<and> nextRef w \<noteq> Suc (nextRef w)
           \<and> heap w2 (nextRef w) = Some (new_Server i)
           \<and> heap w2 (Suc (nextRef w)) = Some (new_Server i)
           \<and> has_id w2 i (nextRef w) \<and> has_id w2 i (Suc (nextRef w))
           \<and> getServer i w2 = (case getServer i w of Some r \<Rightarrow> Some r | None \<Rightarrow> Some (nextRef w))
           \<and> (\<forall>u r. getServer u w2 = Some r \<longrightarrow>
                (\<exists>before after. servers w2 = before @ r # after \<and> has_id w2 u r
                    \<and> (\<forall>x \<in> set before. \<not> has_id w2 u x)))
           \<and> create False i w = Inl (FalhaAoCriarDiretorio i)"
proof -
  define w1 where "w1 = w\<lparr>heap := (heap w)(nextRef w \<mapsto> new_Server i),
                            servers := servers w @ [nextRef w], nextRef := Suc (nextRef w)\<rparr>"
  define w2 where "w2 = w1\<lparr>heap := (heap w1)(nextRef w1 \<mapsto> new_Server i),
                             servers := servers w1 @ [nextRef w1], nextRef := Suc (nextRef w1)\<rparr>"
  have c1: "create True i w = Inr w1" by (simp add: create_def w1_def)
  have c2: "create True i w1 = Inr w2" by (simp add: create_def w2_def)
  have wf1: "wf_world w1" using assms c1 by (rule wf_create)
  have s1: "servers w1 = servers w @ [nextRef w]" and n1: "nextRef w1 = Suc (nextRef w)"
    by (simp_all add: w1_def)
  have a: "servers w2 = servers w @ [nextRef w, Suc (nextRef w)]"
    by (simp add: w2_def s1 n1)
  have f: "nextRef w \<notin> set (servers w) \<and> Suc (nextRef w) \<notin> set (servers w)"
    using assms by (auto simp: wf_world_def)
  have h1: "heap w2 (nextRef w) = Some (new_Server i)" by (simp add: w2_def w1_def)
  have h2: "heap w2 (Suc (nextRef w)) = Some (new_Server i)" by (simp add: w2_def w1_def)
  have b: "has_id w2 i (nextRef w) \<and> has_id w2 i (Suc (nextRef w))"
    by (simp add: has_id_def h1 h2 new_Server_def)
  have d: "getServer i w2 = (case getServer i w of Some r \<Rightarrow> Some r | None \<Rightarrow> Some (nextRef w))"
    by (simp add: getServer_create[OF wf1 c2] getServer_create[OF assms c1] split: option.splits)
  have e: "\<forall>u r. getServer u w2 = Some r \<longrightarrow>
            (\<exists>before after. servers w2 = before @ r # after \<and> has_id w2 u r
                \<and> (\<forall>x \<in> set before. \<not> has_id w2 u x))"
    using getServer_earliest by blast
  have g: "create False i w = Inl (FalhaAoCriarDiretorio i)" by (simp add: create_def)
  show ?thesis
    using c1 c2 a f h1 h2 b d e g by (intro exI[of _ w1] exI[of _ w2]) simp
qed

theorem create_appends_witness:
  "create True ''s1'' empty_world = Inr example_world
   \<and> create True ''s1'' example_world = Inr two_s1_world
   \<and> servers two_s1_world = [0, 1]
   \<and> has_id two_s1_world ''s1'' 0 \<and> has_id two_s1_world ''s1'' 1
   \<and> getServer ''s1'' two_s1_world = Some 0"
proof -
  have c1: "create True ''s1'' empty_world = Inr example_world"
    by (simp add: create_def empty_world_def example_world_def)
  have c2: "create True ''s1'' example_world = Inr two_s1_world"
    by (simp add: create_def two_s1_world_def example_world_def)
  have g: "getServer ''s1'' empty_world = None"
    by (simp add: getServer_def empty_world_def)
  have n: "nextRef empty_world = 0" "servers empty_world = []"
    by (simp_all add: empty_world_def)
  from create_appends_without_uniqueness_check[OF wf_empty_world, of "''s1''"]
  obtain w1 w2 where w: "create True ''s1'' empty_world = Inr w1" "create True ''s1'' w1 = Inr w2"
      "servers w2 = servers empty_world @ [nextRef empty_world, Suc (nextRef empty_world)]"
      "has_id w2 ''s1'' (nextRef empty_world)" "has_id w2 ''s1'' (Suc (nextRef empty_world))"
      "getServer ''s1'' w2 = (case getServer ''s1'' empty_world of Some r \<Rightarrow> Some r
                              | None \<Rightarrow> Some (nextRef empty_world))"
    by blast
  have "w1 = example_world" using w(1) c1 by simp
  then have "w2 = two_s1_world" using w(2) c2 by simp
  then show ?thesis using w(3-6) c1 c2 g n by simp
qed

lemma delete_servers:
  "heap w this = Some s \<Longrightarrow> servers (fst (delete this w)) = remove1 this (servers w)"
  by (simp add: delete_def Let_def)

lemma has_id_delete:
  "heap w this = Some s \<Longrightarrow> has_id (fst (delete this w)) u r = has_id w u r"
  by (simp add: delete_def Let_def has_id_def)

text \<open>
  Claim C9 as stated fails: nothing keeps ids unique, so an instance with the same id can
  stay registered after \<^verbatim>\<open>delete\<close>, and \<^verbatim>\<open>getServer\<close> then returns it.
\<close>

theorem delete_getServer_counterexample:
  "getServer ''s1'' two_s1_world = Some 0
   \<and> getServer ''s1'' (fst (delete 0 two_s1_world)) = Some 1"
  by (simp add: getServer_def delete_def two_s1_world_def has_id_def new_Server_def Let_def)

text \<open>
  Claim C9, amended.  After \<^verbatim>\<open>delete()\<close> on a registered instance, that instance is no
  longer in the registry, the recursive forced removal of its sandbox directory has been
  requested (the call is not awaited and its failure is ignored), and
  \<^verbatim>\<open>getServer(i.id)\<close> returns null exactly when no other registered instance has the
  same id.
\<close>

theorem delete_deregisters:
  assumes "wf_world w" and "this \<in> set (servers w)" and "heap w this = Some s"
  shows "this \<notin> set (servers (fst (delete this w)))
       \<and> FsRm (serverPath (id_server s)) \<in> set (snd (delete this w))
       \<and> (getServer (id_server s) (fst (delete this w)) = None)
           = (\<forall>r \<in> set (servers w). r \<noteq> this \<longrightarrow> \<not> has_id w (id_server s) r)"
proof -
  have d: "distinct (servers w)" using assms(1) by (simp add: wf_world_def)
  have a: "this \<notin> set (servers (fst (delete this w)))"
    using d by (simp add: delete_servers[OF assms(3)])
  have b: "FsRm (serverPath (id_server s)) \<in> set (snd (delete this w))"
    by (simp add: delete_def assms(3) Let_def)
  have "find (has_id (fst (delete this w)) (id_server s)) (remove1 this (servers w))
          = find (has_id w (id_server s)) (remove1 this (servers w))"
    by (rule find_cong_set) (simp add: has_id_delete[OF assms(3)])
  then have c: "(getServer (id_server s) (fst (delete this w)) = None)
           = (\<forall>r \<in> set (servers w). r \<noteq> this \<longrightarrow> \<not> has_id w (id_server s) r)"
    using d by (auto simp: getServer_def delete_servers[OF assms(3)] find_None_iff)
  show ?thesis using a b c by simp
qed

theorem delete_deregisters_witness:
  "0 \<notin> set (servers (fst (delete 0 example_world)))
   \<and> FsRm ''E:/servers/s1'' \<in> set (snd (delete 0 example_world))
   \<and> getServer ''s1'' (fst (delete 0 example_world)) = None"
proof -
  have w: "wf_world example_world" by (simp add: wf_world_def example_world_def)
  have m: "0 \<in> set (servers example_world)" by (simp add: example_world_def)
  have h: "heap example_world 0 = Some (new_Server ''s1'')" by (simp add: example_world_def)
  show ?thesis
    using delete_deregisters[OF w m h]
    by (simp add: example_world_def new_Server_def serverPath_def BASE_SERVER_PATH_def)
qed

section \<open>Properties of an instance\<close>

lemma example_started_eq:
  "example_started =
     \<lparr>id_server = ''s1'', container = Some 7, running = True, isInitializing = False,
      startedAt = Some 1000, stdinStream = Some 3, liveListeners = []\<rparr>"
  by (simp add: example_started_def start_def example_start_env_def new_Server_def Let_def eval_nat_numeral)

text \<open>
  Claim C3: \<open>startedAt\<close> is non-null exactly when \<open>running\<close> holds, after every public
  operation.  \<^verbatim>\<open>start\<close>, \<^verbatim>\<open>stop\<close>, \<^verbatim>\<open>kill\<close>, \<^verbatim>\<open>delete\<close> and the continuation
  on \<^verbatim>\<open>wait()\<close> keep it; \<^verbatim>\<open>getStatus\<close> does not.  On an instance started at time
  1000 whose container the runtime then reports as exited, \<^verbatim>\<open>getStatus\<close> clears
  \<open>running\<close> and leaves \<open>startedAt\<close> at 1000.
\<close>

theorem getStatus_leaves_startedAt:
  "startedAt_iff_running example_started
   \<and> snd (getStatus (\<lambda>_. None) 2000 exited example_started)
       = example_started\<lparr>running := False\<rparr>
   \<and> startedAt (snd (getStatus (\<lambda>_. None) 2000 exited example_started)) = Some 1000
   \<and> \<not> startedAt_iff_running (snd (getStatus (\<lambda>_. None) 2000 exited example_started))"
  by (simp add: example_started_eq getStatus_def exited_def startedAt_iff_running_def)

lemma getStatus_never_clears_startedAt:
  "startedAt s \<noteq> None \<Longrightarrow> startedAt (snd (getStatus gt n insp s)) \<noteq> None"
  by (auto simp: getStatus_def Let_def split: option.splits inspect_result.splits)

lemma start_catch_stopped: "stopped_state (fst (snd (start_catch e s es)))"
  by (simp add: start_catch_def stopped_state_def)

lemma start_startedAt_iff_running: "startedAt_iff_running (fst (snd (start env data s)))"
  by (auto simp: start_def start_catch_def startedAt_iff_running_def Let_def
           split: option.splits sum.splits prod.splits)

lemma wait_continuation_startedAt_iff_running:
  "startedAt_iff_running (fst (wait_continuation s))"
  by (simp add: wait_continuation_def startedAt_iff_running_def)

lemma delete_startedAt_iff_running:
  "heap w this = Some s \<Longrightarrow>
   \<exists>s'. heap (fst (delete this w)) this = Some s' \<and> startedAt_iff_running s'"
  by (simp add: delete_def Let_def startedAt_iff_running_def)

lemma kill_unchanged: "fst (kill s) = s"
  by (simp add: kill_def split: option.splits)

lemma sendCommand_flags:
  "sendCommand att ok cmd s = (r, s', es) \<Longrightarrow> running s' = running s \<and> startedAt s' = startedAt s"
  by (auto simp: sendCommand_def reattach_def Let_def split: if_splits option.splits sum.splits prod.splits)

lemma stop_flags:
  "running (fst (stop att ok cmd s)) = running s \<and> startedAt (fst (stop att ok cmd s)) = startedAt s"
proof (cases "container s")
  case None
  then show ?thesis by (simp add: stop_def)
next
  case (Some c)
  obtain r s1 es where sc: "sendCommand att ok cmd s = (r, s1, es)"
    by (metis prod_cases3)
  from sendCommand_flags[OF sc] show ?thesis
    by (cases r) (simp_all add: stop_def Some sc kill_def split: option.splits)
qed



section \<open>Properties of strings and of the sanitizer\<close>

lemma split_on_not_Nil [simp]: "split_on P s \<noteq> []"
  by (cases s) auto

lemma split_on_hd_tl: "hd (split_on P s) # tl (split_on P s) = split_on P s"
  by simp

lemma split_on_append_sep:
  "P c \<Longrightarrow> split_on P (xs @ c # ys) = split_on P xs @ split_on P ys"
proof (induction xs)
  case Nil
  then show ?case by simp
next
  case (Cons x xs)
  then show ?case by (cases "split_on P xs") auto
qed

lemma split_on_snoc:
  "split_on P (xs @ [c]) =
     (if P c then split_on P xs @ [[]]
      else butlast (split_on P xs) @ [last (split_on P xs) @ [c]])"
proof (induction xs)
  case Nil
  then show ?case by simp
next
  case (Cons x xs)
  then show ?case
    by (cases "split_on P xs"; cases "split_on P (xs @ [c])") (auto split: if_splits)
qed

lemma split_on_rev: "split_on P (rev s) = rev (map rev (split_on P s))"
proof (induction s)
  case Nil
  then show ?case by simp
next
  case (Cons c cs)
  show ?case
  proof (cases "P c")
    case True
    then show ?thesis using Cons by (simp add: split_on_snoc)
  next
    case False
    obtain h t where ht: "split_on P cs = h # t"
      by (cases "split_on P cs") auto
    show ?thesis using False Cons
      by (simp add: split_on_snoc ht butlast_append last_append)
  qed
qed

lemma in_split_dropWhile_sep:
  "x \<in> set (split_on P s) \<Longrightarrow> x \<noteq> [] \<Longrightarrow> x \<in> set (split_on P (dropWhile P s))"
  by (induction s) (auto split: if_splits)

lemma in_split_dropWhile_other:
  assumes "\<And>c. W c \<Longrightarrow> \<not> P c"
  shows "x \<in> set (split_on P s) \<Longrightarrow> x \<noteq> [] \<Longrightarrow> \<not> W (hd x)
           \<Longrightarrow> x \<in> set (split_on P (dropWhile W s))"
proof (induction s)
  case Nil
  then show ?case by simp
next
  case (Cons c cs)
  show ?case
  proof (cases "W c")
    case True
    then have np: "\<not> P c" using assms by simp
    obtain h t where ht: "split_on P cs = h # t"
      by (cases "split_on P cs") auto
    from Cons.prems np ht True have "x \<in> set t" by auto
    then have "x \<in> set (split_on P cs)" by (simp add: ht)
    then show ?thesis using Cons True by simp
  next
    case False
    then show ?thesis using Cons.prems by simp
  qed
qed

lemma in_split_trim:
  assumes "\<And>c. is_space c \<Longrightarrow> \<not> P c"
    and "x \<in> set (split_on P s)" and "x \<noteq> []"
    and "\<not> is_space (hd x)" and "\<not> is_space (last x)"
  shows "x \<in> set (split_on P (trim s))"
proof -
  have 1: "x \<in> set (split_on P (dropWhile is_space s))"
    using assms by (intro in_split_dropWhile_other) auto
  then have "rev x \<in> set (split_on P (rev (dropWhile is_space s)))"
    by (simp add: split_on_rev)
  then have "rev x \<in> set (split_on P (dropWhile is_space (rev (dropWhile is_space s))))"
    using assms by (intro in_split_dropWhile_other) (auto simp: hd_rev)
  then have "rev (rev x) \<in> set (split_on P (rev (dropWhile is_space (rev (dropWhile is_space s)))))"
    unfolding split_on_rev[of P "dropWhile is_space (rev (dropWhile is_space s))"] by force
  then show ?thesis by (simp add: trim_def)
qed

lemma space_not_sep: "is_space c \<Longrightarrow> \<not> is_sep c"
  by (auto simp: is_space_def is_sep_def)

lemma dotdot_survives_sanitizing:
  assumes "''..'' \<in> set (split_on is_sep s)"
  shows "''..'' \<in> set (split_on is_sep (trim (dropWhile is_sep s)))"
proof -
  have "''..'' \<in> set (split_on is_sep (dropWhile is_sep s))"
    using assms by (intro in_split_dropWhile_sep) auto
  then show ?thesis
    by (intro in_split_trim) (auto simp: space_not_sep is_space_def)
qed

lemma sanitizeRelative_rejects_dotdot:
  assumes "''..'' \<in> set (split_on is_sep s)"
  shows "sanitizeRelative (Some s) = Inl CaminhoNaoPermitido"
proof -
  have "s \<noteq> []" "s \<noteq> ''/''" "s \<noteq> ''.''"
    using assms by (auto simp: is_sep_def)
  then show ?thesis
    using dotdot_survives_sanitizing[OF assms] by (simp add: sanitizeRelative_def Let_def)
qed


section \<open>Properties of the HTTP surface\<close>

lemma getServer_example: "getServer ''s1'' example_world = Some 0"
  by (simp add: getServer_def example_world_def has_id_def new_Server_def)

lemma heap_example: "heap example_world 0 = Some (new_Server ''s1'')"
  by (simp add: example_world_def)

lemma route_servers_status:
  "findMatchingApiRoute ''/api/v1/servers/status'' = Some (ServersRoute, Some ''status'')"
  by (simp add: findMatchingApiRoute_def is_line_terminator_def)

lemma GetServerStatus_example:
  "fst (GetServerStatus example_env example_world (Some example_body))
     = Inr \<lparr>code = 200, payload = ServerStatusBody (PromiseOf Stopped)\<rparr>"
  by (simp add: GetServerStatus_def control_checks_def falsy_def the_string_def
      example_body_def empty_body_def getServer_example heap_example example_env_def
      getStatus_of_def getStatus_def inspect_server_def new_Server_def)

lemma handleRequest_servers:
  assumes "findMatchingApiRoute (pathname req) = Some (ServersRoute, action)"
    and "http_method req = POST"
    and "fst (interpretServers e w (request_body req) action) = Inr rep"
  shows "fst (handleRequest e w req) = rep"
  using assms
  by (cases "interpretServers e w (request_body req) action")
     (simp add: handleRequest_def route_handles_def)

text \<open>
  Claim C7: the \<open>serverStatus\<close> of the reply to \<^verbatim>\<open>/api/v1/servers/status\<close> is the
  awaited result of \<^verbatim>\<open>getStatus\<close>.  The handler places the promise in the reply
  without awaiting it: for an authorized request on the stopped server \<open>s1\<close> the field
  holds a promise, which is serialized as \<^verbatim>\<open>{}\<close>.
\<close>

theorem status_reply_holds_promise:
  "fst (handleRequest example_env example_world status_request)
     = \<lparr>code = 200, payload = ServerStatusBody (PromiseOf Stopped)\<rparr>
   \<and> json_serverStatus (PromiseOf Stopped) = ''{}''"
proof -
  have "fst (interpretServers example_env example_world (request_body status_request)
               (Some ''status''))
          = Inr \<lparr>code = 200, payload = ServerStatusBody (PromiseOf Stopped)\<rparr>"
    by (simp add: interpretServers_def status_request_def falsy_def the_string_def
        GetServerStatus_example)
  then have "fst (handleRequest example_env example_world status_request)
          = \<lparr>code = 200, payload = ServerStatusBody (PromiseOf Stopped)\<rparr>"
    by (intro handleRequest_servers[where action = "Some ''status''"])
       (simp_all add: status_request_def route_servers_status)
  then show ?thesis by (simp add: json_serverStatus_def)
qed

lemma GetServerStatus_never_awaits:
  "fst (GetServerStatus e w rb) = Inr rep \<Longrightarrow> payload rep \<noteq> ServerStatusBody (Awaited st)"
  by (auto simp: GetServerStatus_def control_checks_def send_def
           split: option.splits if_splits)

text \<open>
  Claim C8 as stated fails on \<^verbatim>\<open>/api/v1/status\<close>: a token that differs from the
  configured one is answered with 401.
\<close>

theorem status_token_counterexample:
  "code (fst (handleRequest example_env example_world wrong_token_request)) = 401"
  by (simp add: handleRequest_def wrong_token_request_def findMatchingApiRoute_def
      route_handles_def VerifyStatus_def example_env_def empty_body_def send_def)


lemma control_checks_token:
  "falsy (b_token b) \<Longrightarrow> control_checks e b = Some (send 400)"
  "\<not> falsy (b_token b) \<Longrightarrow> b_token b \<noteq> Some (config_token e) \<Longrightarrow> control_checks e b = Some (send 403)"
  by (simp_all add: control_checks_def)

lemma control_handlers_early:
  assumes "control_checks e b = Some rep"
  shows "fst (CreateServer e w (Some b)) = Inr rep"
    and "fst (DeleteServer e w (Some b)) = Inr rep"
    and "fst (GetServerStatus e w (Some b)) = Inr rep"
    and "fst (GetServerUsage e w (Some b)) = Inr rep"
    and "SendActionServer e w (Some b) = Inr rep"
  using assms
  by (simp_all add: CreateServer_def DeleteServer_def GetServerStatus_def GetServerUsage_def
      SendActionServer_def)

lemma interpretServers_early:
  assumes "control_checks e b = Some rep" and "\<not> is_filemanager_action action"
  shows "fst (interpretServers e w (Some b) action) = Inr rep"
proof -
  have nf: "(\<not> falsy action \<and> prefix ''filemanager'' (the_string action)) = False"
    using assms(2) by (simp add: is_filemanager_action_def)
  show ?thesis
    unfolding interpretServers_def nf
    using control_handlers_early[OF assms(1), of w] by simp
qed

lemma interpretFileManager_token:
  assumes "falsy (b_token b) \<or> b_token b \<noteq> Some (config_token e)"
  shows "interpretFileManager e w (Some b) sub = Inr (send 400)"
proof -
  have "\<not> validateAuth e b" using assms by (auto simp: validateAuth_def)
  then show ?thesis by (simp add: interpretFileManager_def)
qed

text \<open>
  Claim C8, amended.  For a POST with a body: the handlers of \<^verbatim>\<open>/api/v1/servers/\<close>
  other than the file manager (create, delete, status, usage, action, and create for any
  other action) answer a missing or empty token with 400 and a token that differs from
  the configured one with 403; the file manager answers both with 400; and
  \<^verbatim>\<open>/api/v1/status\<close> answers every token that is not the configured one, a missing
  one included, with 401.
\<close>

theorem token_checks:
  assumes "http_method req = POST" and "request_body req = Some b"
  shows "(findMatchingApiRoute (pathname req) = Some (StatusRoute, None)
            \<longrightarrow> b_token b \<noteq> Some (config_token e)
            \<longrightarrow> code (fst (handleRequest e w req)) = 401)
       \<and> (\<forall>action. findMatchingApiRoute (pathname req) = Some (ServersRoute, action) \<longrightarrow>
            (if is_filemanager_action action
             then (falsy (b_token b) \<or> b_token b \<noteq> Some (config_token e)
                     \<longrightarrow> code (fst (handleRequest e w req)) = 400)
             else (falsy (b_token b) \<longrightarrow> code (fst (handleRequest e w req)) = 400)
                \<and> (\<not> falsy (b_token b) \<and> b_token b \<noteq> Some (config_token e)
                     \<longrightarrow> code (fst (handleRequest e w req)) = 403)))"
proof (intro conjI allI impI)
  assume "findMatchingApiRoute (pathname req) = Some (StatusRoute, None)"
    and "b_token b \<noteq> Some (config_token e)"
  then show "code (fst (handleRequest e w req)) = 401"
    using assms by (simp add: handleRequest_def route_handles_def VerifyStatus_def send_def)
next
  fix action
  assume r: "findMatchingApiRoute (pathname req) = Some (ServersRoute, action)"
  show "if is_filemanager_action action
        then (falsy (b_token b) \<or> b_token b \<noteq> Some (config_token e)
                \<longrightarrow> code (fst (handleRequest e w req)) = 400)
        else (falsy (b_token b) \<longrightarrow> code (fst (handleRequest e w req)) = 400)
           \<and> (\<not> falsy (b_token b) \<and> b_token b \<noteq> Some (config_token e)
                \<longrightarrow> code (fst (handleRequest e w req)) = 403)"
  proof (cases "is_filemanager_action action")
    case True
    have "code (fst (handleRequest e w req)) = 400"
      if "falsy (b_token b) \<or> b_token b \<noteq> Some (config_token e)"
    proof -
      have "fst (interpretServers e w (request_body req) action) = Inr (send 400)"
        using True interpretFileManager_token[OF that]
        by (simp add: interpretServers_def is_filemanager_action_def assms(2))
      from handleRequest_servers[OF r assms(1) this] show ?thesis by (simp add: send_def)
    qed
    then show ?thesis using True by simp
  next
    case False
    have a: "code (fst (handleRequest e w req)) = 400" if "falsy (b_token b)"
    proof -
      have "fst (interpretServers e w (request_body req) action) = Inr (send 400)"
        using interpretServers_early[OF control_checks_token(1)[OF that] False]
        by (simp add: assms(2))
      from handleRequest_servers[OF r assms(1) this] show ?thesis by (simp add: send_def)
    qed
    have b: "code (fst (handleRequest e w req)) = 403"
      if "\<not> falsy (b_token b) \<and> b_token b \<noteq> Some (config_token e)"
    proof -
      have "fst (interpretServers e w (request_body req) action) = Inr (send 403)"
        using interpretServers_early[OF control_checks_token(2) False] that
        by (simp add: assms(2))
      from handleRequest_servers[OF r assms(1) this] show ?thesis by (simp add: send_def)
    qed
    show ?thesis using False a b by simp
  qed
qed

theorem token_checks_witness:
  "code (fst (handleRequest example_env example_world create_wrong_token_request)) = 403"
proof -
  have m: "http_method create_wrong_token_request = POST"
    by (simp add: create_wrong_token_request_def)
  have b: "request_body create_wrong_token_request = Some (example_body\<lparr>b_token := Some ''wrong''\<rparr>)"
    by (simp add: create_wrong_token_request_def)
  have r: "findMatchingApiRoute (pathname create_wrong_token_request)
             = Some (ServersRoute, Some ''create'')"
    by (simp add: create_wrong_token_request_def findMatchingApiRoute_def is_line_terminator_def)
  have f: "\<not> is_filemanager_action (Some ''create'')"
    by (simp add: is_filemanager_action_def the_string_def)
  have t: "\<not> falsy (b_token (example_body\<lparr>b_token := Some ''wrong''\<rparr>))
           \<and> b_token (example_body\<lparr>b_token := Some ''wrong''\<rparr>) \<noteq> Some (config_token example_env)"
    by (simp add: falsy_def example_env_def)
  show ?thesis
    using token_checks[OF m b, of example_env example_world] r f t by simp
qed

lemma route_filemanager:
  assumes "\<not> (\<exists>x \<in> set sub. is_line_terminator x)"
  shows "findMatchingApiRoute (''/api/v1/servers/filemanager/'' @ sub)
           = Some (ServersRoute, Some (''filemanager/'' @ sub))"
  using assms by (simp add: findMatchingApiRoute_def is_line_terminator_def)

lemma filemanager_sub_eq:
  assumes "sub \<noteq> []" and "\<not> (\<exists>x \<in> set sub. is_slash x)"
  shows "filemanager_sub (''filemanager/'' @ sub) = sub"
proof -
  have s: "split_on is_slash sub = [sub]"
    using assms(2) by (induction sub) auto
  have "split_on is_slash (''filemanager'' @ CHR ''/'' # sub)
          = split_on is_slash ''filemanager'' @ split_on is_slash sub"
    by (rule split_on_append_sep) (simp add: is_slash_def)
  then show ?thesis
    using assms(1) by (simp add: filemanager_sub_def s is_slash_def)
qed

lemma handleRequest_filemanager:
  assumes "p = ''/api/v1/servers/filemanager/'' @ sub"
    and "sub \<noteq> []" and "\<not> (\<exists>x \<in> set sub. is_slash x \<or> is_line_terminator x)"
  shows "fst (handleRequest e w \<lparr>pathname = p, http_method = POST, request_body = rb\<rparr>)
           = (case interpretFileManager e w rb sub of Inl _ \<Rightarrow> send 500 | Inr rep \<Rightarrow> rep)"
proof -
  define a where "a = ''filemanager/'' @ sub"
  have r: "findMatchingApiRoute p = Some (ServersRoute, Some a)"
    unfolding assms(1) a_def using assms(3) by (intro route_filemanager) auto
  have f: "filemanager_sub a = sub"
    unfolding a_def using assms by (intro filemanager_sub_eq) auto
  have pa: "prefix ''filemanager'' a" by (simp add: a_def)
  have "a \<noteq> []" by (simp add: a_def)
  then have i: "interpretServers e w rb (Some a) = (interpretFileManager e w rb sub, w)"
    unfolding interpretServers_def using f pa by (simp add: falsy_def the_string_def)
  show ?thesis
    unfolding handleRequest_def
    by (simp add: r i route_handles_def split: sum.splits)
qed

lemma bindE_Inl [simp]: "bindE (Inl err) f = Inl err"
  by (simp add: bindE_def)

lemma bindE_Inr [simp]: "bindE (Inr x) f = f x"
  by (simp add: bindE_def)

lemma dotdot_not_falsy: "''..'' \<in> set (split_on is_sep p) \<Longrightarrow> \<not> falsy (Some p)"
  by (auto simp: falsy_def)

lemma handlers_throw_on_dotdot:
  assumes "b_path b = Some p" and "''..'' \<in> set (split_on is_sep p)"
  shows "handleList e b = Inl CaminhoNaoPermitido"
    and "handleRead e b = Inl CaminhoNaoPermitido"
    and "handleDownload e b = Inl CaminhoNaoPermitido"
    and "handleMkdir e b = Inl CaminhoNaoPermitido"
    and "handleUpload e b = Inl CaminhoNaoPermitido"
    and "handleUnarchive e b = Inl CaminhoNaoPermitido"
    and "b_content b \<noteq> None \<Longrightarrow> handleWrite e b = Inl CaminhoNaoPermitido"
    and "\<not> falsy (b_newName b) \<Longrightarrow> \<not> (\<exists>c \<in> set (the_string (b_newName b)). is_sep c)
           \<Longrightarrow> handleRename e b = Inl CaminhoNaoPermitido"
  using sanitizeRelative_rejects_dotdot[OF assms(2)] dotdot_not_falsy[OF assms(2)] assms(1)
  by (simp_all add: handleList_def handleRead_def handleDownload_def handleMkdir_def
      handleUpload_def handleUnarchive_def handleWrite_def handleRename_def)

text \<open>
  Claim C2 as stated fails: the file manager catches no exception of the path resolver,
  so the request \<^verbatim>\<open>read\<close> with path \<^verbatim>\<open>../../../etc/passwd\<close> ends in the router''s
  handler of uncaught exceptions, which answers 500.
\<close>

theorem read_escape_counterexample:
  "code (fst (handleRequest example_env example_world escape_request)) = 500"
proof -
  have d: "''..'' \<in> set (split_on is_sep ''../../../etc/passwd'')"
    by (simp add: is_sep_def)
  have v: "validateAuth example_env (example_body\<lparr>b_path := Some ''../../../etc/passwd''\<rparr>)"
    by (simp add: validateAuth_def example_env_def example_body_def empty_body_def falsy_def)
  have p: "ensurePermission example_env example_world
             (example_body\<lparr>b_path := Some ''../../../etc/passwd''\<rparr>) = Inr 0"
    by (simp add: ensurePermission_def example_body_def empty_body_def the_string_def
        getServer_example example_env_def)
  have "interpretFileManager example_env example_world
          (Some (example_body\<lparr>b_path := Some ''../../../etc/passwd''\<rparr>)) ''read''
          = Inl CaminhoNaoPermitido"
    using handlers_throw_on_dotdot(2)[OF _ d, of "example_body\<lparr>b_path := Some ''../../../etc/passwd''\<rparr>" example_env]
    by (simp add: interpretFileManager_def v p)
  then show ?thesis
    using handleRequest_filemanager[of "''/api/v1/servers/filemanager/read''" "''read''"
        example_env example_world
        "Some (example_body\<lparr>b_path := Some ''../../../etc/passwd''\<rparr>)"]
    by (simp add: escape_request_def is_slash_def is_line_terminator_def send_def)
qed


lemma interpretFileManager_authorized:
  assumes "validateAuth e b" and "ensurePermission e w b = Inr r"
  shows "interpretFileManager e w (Some b) ''list'' = handleList e b"
    and "interpretFileManager e w (Some b) ''read'' = handleRead e b"
    and "interpretFileManager e w (Some b) ''write'' = handleWrite e b"
    and "interpretFileManager e w (Some b) ''rename'' = handleRename e b"
    and "interpretFileManager e w (Some b) ''download'' = handleDownload e b"
    and "interpretFileManager e w (Some b) ''mass'' = handleMass e b"
    and "interpretFileManager e w (Some b) ''mkdir'' = handleMkdir e b"
    and "interpretFileManager e w (Some b) ''upload'' = handleUpload e b"
    and "interpretFileManager e w (Some b) ''unarchive'' = replied (handleUnarchive e b)"
  using assms by (simp_all add: interpretFileManager_def)

lemma mass_entry_dotdot:
  "''..'' \<in> set (split_on is_sep q) \<Longrightarrow> mass_entry e i a q = MassError q CaminhoNaoPermitido"
  by (simp add: mass_entry_def sanitizeRelative_rejects_dotdot)

text \<open>
  Claim C2, amended.  For an authorized file-manager request whose \<open>path\<close> has a segment
  \<^verbatim>\<open>..\<close>: list, read, download, mkdir, upload and unarchive are answered with status
  500; write is answered with 500 when the body has a string \<open>content\<close> and with the
  400 of the test that comes before the resolver when it has none; rename is answered
  with 500 when \<open>newName\<close> is present and has no separator and with 400 otherwise; a
  \<^verbatim>\<open>mass\<close> deletion is answered with status 200 and reports the rejected path in the
  result of its entry.
\<close>

theorem path_violation_replies_500:
  assumes "validateAuth e b" and "ensurePermission e w b = Inr r"
  shows "(\<forall>p sub. b_path b = Some p \<and> ''..'' \<in> set (split_on is_sep p)
            \<and> sub \<in> {''list'', ''read'', ''download'', ''mkdir'', ''upload'', ''unarchive''}
            \<longrightarrow> code (fst (handleRequest e w
                   \<lparr>pathname = ''/api/v1/servers/filemanager/'' @ sub, http_method = POST,
                    request_body = Some b\<rparr>)) = 500)
       \<and> (\<forall>p. b_path b = Some p \<and> ''..'' \<in> set (split_on is_sep p)
            \<longrightarrow> code (fst (handleRequest e w
                   \<lparr>pathname = ''/api/v1/servers/filemanager/write'', http_method = POST,
                    request_body = Some b\<rparr>))
                  = (if b_content b = None then 400 else 500))
       \<and> (\<forall>p. b_path b = Some p \<and> ''..'' \<in> set (split_on is_sep p)
            \<longrightarrow> code (fst (handleRequest e w
                   \<lparr>pathname = ''/api/v1/servers/filemanager/rename'', http_method = POST,
                    request_body = Some b\<rparr>))
                  = (if falsy (b_newName b) \<or> (\<exists>c \<in> set (the_string (b_newName b)). is_sep c)
                     then 400 else 500))
       \<and> (\<forall>ps q. b_paths b = Some ps \<and> b_action b = Some ''delete'' \<and> q \<in> set ps
              \<and> ''..'' \<in> set (split_on is_sep q)
            \<longrightarrow> fst (handleRequest e w
                   \<lparr>pathname = ''/api/v1/servers/filemanager/mass'', http_method = POST,
                    request_body = Some b\<rparr>)
                  = \<lparr>code = 200,
                     payload = MassBody (map (mass_entry e (the_string (b_serverId b)) False) ps)\<rparr>
                \<and> mass_entry e (the_string (b_serverId b)) False q
                    = MassError q CaminhoNaoPermitido)"
proof (intro conjI allI impI)
  fix p sub
  assume h: "b_path b = Some p \<and> ''..'' \<in> set (split_on is_sep p)
            \<and> sub \<in> {''list'', ''read'', ''download'', ''mkdir'', ''upload'', ''unarchive''}"
  note t = handlers_throw_on_dotdot[of b p e, OF conjunct1[OF h] conjunct1[OF conjunct2[OF h]]]
  note i = interpretFileManager_authorized[OF assms]
  have thrown: "interpretFileManager e w (Some b) sub = Inl CaminhoNaoPermitido"
    using h t i by (auto simp: replied_def)
  have sub: "sub \<noteq> [] \<and> \<not> (\<exists>x \<in> set sub. is_slash x \<or> is_line_terminator x)"
    using h by (auto simp: is_slash_def is_line_terminator_def)
  show "code (fst (handleRequest e w
                   \<lparr>pathname = ''/api/v1/servers/filemanager/'' @ sub, http_method = POST,
                    request_body = Some b\<rparr>)) = 500"
    using handleRequest_filemanager[OF refl conjunct1[OF sub] conjunct2[OF sub], of e w "Some b"]
    by (simp add: thrown send_def)
next
  fix p
  assume h: "b_path b = Some p \<and> ''..'' \<in> set (split_on is_sep p)"
  note t = handlers_throw_on_dotdot[of b p e, OF conjunct1[OF h] conjunct2[OF h]]
  have nf: "\<not> falsy (b_path b)" using h dotdot_not_falsy[of p] by simp
  have "interpretFileManager e w (Some b) ''write''
          = (if b_content b = None then Inr (send 400) else Inl CaminhoNaoPermitido)"
    using interpretFileManager_authorized(3)[OF assms] t(7) nf by (simp add: handleWrite_def)
  moreover have "fst (handleRequest e w
                   \<lparr>pathname = ''/api/v1/servers/filemanager/write'', http_method = POST,
                    request_body = Some b\<rparr>)
          = (case interpretFileManager e w (Some b) ''write'' of
               Inl _ \<Rightarrow> send 500 | Inr rep \<Rightarrow> rep)"
    by (rule handleRequest_filemanager) (simp_all add: is_slash_def is_line_terminator_def)
  ultimately show "code (fst (handleRequest e w
                   \<lparr>pathname = ''/api/v1/servers/filemanager/write'', http_method = POST,
                    request_body = Some b\<rparr>))
                  = (if b_content b = None then 400 else 500)"
    by (simp add: send_def)
next
  fix p
  assume h: "b_path b = Some p \<and> ''..'' \<in> set (split_on is_sep p)"
  note t = handlers_throw_on_dotdot[of b p e, OF conjunct1[OF h] conjunct2[OF h]]
  have "interpretFileManager e w (Some b) ''rename''
          = (if falsy (b_newName b) \<or> (\<exists>c \<in> set (the_string (b_newName b)). is_sep c)
             then Inr (send 400) else Inl CaminhoNaoPermitido)"
    using interpretFileManager_authorized(4)[OF assms] t(8) by (auto simp: handleRename_def)
  moreover have "fst (handleRequest e w
                   \<lparr>pathname = ''/api/v1/servers/filemanager/rename'', http_method = POST,
                    request_body = Some b\<rparr>)
          = (case interpretFileManager e w (Some b) ''rename'' of
               Inl _ \<Rightarrow> send 500 | Inr rep \<Rightarrow> rep)"
    by (rule handleRequest_filemanager) (simp_all add: is_slash_def is_line_terminator_def)
  ultimately show "code (fst (handleRequest e w
                   \<lparr>pathname = ''/api/v1/servers/filemanager/rename'', http_method = POST,
                    request_body = Some b\<rparr>))
                  = (if falsy (b_newName b) \<or> (\<exists>c \<in> set (the_string (b_newName b)). is_sep c)
                     then 400 else 500)"
    by (simp add: send_def)
next
  fix ps q
  assume h: "b_paths b = Some ps \<and> b_action b = Some ''delete'' \<and> q \<in> set ps
              \<and> ''..'' \<in> set (split_on is_sep q)"
  then have ne: "ps \<noteq> []" by auto
  have m: "handleMass e b
             = Inr \<lparr>code = 200,
                    payload = MassBody (map (mass_entry e (the_string (b_serverId b)) False) ps)\<rparr>"
    using h ne by (simp add: handleMass_def Let_def)
  have "fst (handleRequest e w
               \<lparr>pathname = ''/api/v1/servers/filemanager/mass'', http_method = POST,
                request_body = Some b\<rparr>)
          = (case interpretFileManager e w (Some b) ''mass'' of
               Inl _ \<Rightarrow> send 500 | Inr rep \<Rightarrow> rep)"
    by (rule handleRequest_filemanager) (simp_all add: is_slash_def is_line_terminator_def)
  then show "fst (handleRequest e w
               \<lparr>pathname = ''/api/v1/servers/filemanager/mass'', http_method = POST,
                request_body = Some b\<rparr>)
          = \<lparr>code = 200,
             payload = MassBody (map (mass_entry e (the_string (b_serverId b)) False) ps)\<rparr>"
    by (simp add: interpretFileManager_authorized(6)[OF assms] m)
next
  fix ps q
  assume h: "b_paths b = Some ps \<and> b_action b = Some ''delete'' \<and> q \<in> set ps
              \<and> ''..'' \<in> set (split_on is_sep q)"
  then show "mass_entry e (the_string (b_serverId b)) False q = MassError q CaminhoNaoPermitido"
    by (simp add: mass_entry_dotdot)
qed

theorem path_violation_witness:
  "code (fst (handleRequest example_env example_world
            \<lparr>pathname = ''/api/v1/servers/filemanager/list'', http_method = POST,
             request_body = Some list_escape_body\<rparr>)) = 500
   \<and> code (fst (handleRequest example_env example_world
            \<lparr>pathname = ''/api/v1/servers/filemanager/write'', http_method = POST,
             request_body = Some list_escape_body\<rparr>)) = 400
   \<and> code (fst (handleRequest example_env example_world
            \<lparr>pathname = ''/api/v1/servers/filemanager/rename'', http_method = POST,
             request_body = Some (list_escape_body\<lparr>b_newName := Some ''n''\<rparr>)\<rparr>)) = 500"
proof -
  have v: "validateAuth example_env list_escape_body"
    by (simp add: validateAuth_def example_env_def example_body_def empty_body_def falsy_def
        list_escape_body_def)
  have p: "ensurePermission example_env example_world list_escape_body = Inr 0"
    by (simp add: ensurePermission_def example_body_def empty_body_def the_string_def
        getServer_example example_env_def list_escape_body_def)
  have v': "validateAuth example_env (list_escape_body\<lparr>b_newName := Some ''n''\<rparr>)"
    by (simp add: validateAuth_def example_env_def example_body_def empty_body_def falsy_def
        list_escape_body_def)
  have p': "ensurePermission example_env example_world (list_escape_body\<lparr>b_newName := Some ''n''\<rparr>)
              = Inr 0"
    by (simp add: ensurePermission_def example_body_def empty_body_def the_string_def
        getServer_example example_env_def list_escape_body_def)
  have d: "b_path list_escape_body = Some ''a/../..'' \<and> ''..'' \<in> set (split_on is_sep ''a/../..'')"
    by (simp add: list_escape_body_def is_sep_def)
  have d': "b_path (list_escape_body\<lparr>b_newName := Some ''n''\<rparr>) = Some ''a/../..''
            \<and> ''..'' \<in> set (split_on is_sep ''a/../..'')"
    using d by simp
  have c: "b_content list_escape_body = None"
    by (simp add: list_escape_body_def example_body_def empty_body_def)
  have n: "\<not> (falsy (b_newName (list_escape_body\<lparr>b_newName := Some ''n''\<rparr>))
              \<or> (\<exists>c \<in> set (the_string (b_newName (list_escape_body\<lparr>b_newName := Some ''n''\<rparr>))).
                    is_sep c))"
    by (simp add: falsy_def the_string_def is_sep_def)
  have 1: "code (fst (handleRequest example_env example_world
            \<lparr>pathname = ''/api/v1/servers/filemanager/'' @ ''list'', http_method = POST,
             request_body = Some list_escape_body\<rparr>)) = 500"
    using path_violation_replies_500[OF v p] d by blast
  have 2: "code (fst (handleRequest example_env example_world
            \<lparr>pathname = ''/api/v1/servers/filemanager/write'', http_method = POST,
             request_body = Some list_escape_body\<rparr>)) = (if b_content list_escape_body = None then 400 else 500)"
    using path_violation_replies_500[OF v p] d by blast
  have 3: "code (fst (handleRequest example_env example_world
            \<lparr>pathname = ''/api/v1/servers/filemanager/rename'', http_method = POST,
             request_body = Some (list_escape_body\<lparr>b_newName := Some ''n''\<rparr>)\<rparr>))
           = (if falsy (b_newName (list_escape_body\<lparr>b_newName := Some ''n''\<rparr>))
                 \<or> (\<exists>c \<in> set (the_string (b_newName (list_escape_body\<lparr>b_newName := Some ''n''\<rparr>))).
                       is_sep c)
              then 400 else 500)"
    using path_violation_replies_500[OF v' p'] d' by blast
  show ?thesis using 1 2 3 c n by simp
qed

section \<open>Properties of the SFTP authentication\<close>

lemma joinWith_Cons: "ys \<noteq> [] \<Longrightarrow> joinWith sep (x # ys) = x @ sep @ joinWith sep ys"
  by (cases ys) auto

lemma joinWith_snoc: "xs \<noteq> [] \<Longrightarrow> joinWith sep (xs @ [y]) = joinWith sep xs @ sep @ y"
  by (induction sep xs rule: joinWith.induct) (auto simp: joinWith_Cons)

lemma joinWith_split_on: "joinWith [c] (split_on (\<lambda>x. x = c) s) = s"
proof (induction s)
  case Nil
  then show ?case by simp
next
  case (Cons a s)
  obtain h t where ht: "split_on (\<lambda>x. x = c) s = h # t"
    by (cases "split_on (\<lambda>x. x = c) s") auto
  show ?case using Cons
    by (cases t) (auto simp: ht joinWith_Cons)
qed

lemma split_on_segments_free: "p \<in> set (split_on P s) \<Longrightarrow> x \<in> set p \<Longrightarrow> \<not> P x"
proof (induction s arbitrary: p)
  case Nil
  then show ?case by simp
next
  case (Cons a s)
  obtain h t where ht: "split_on P s = h # t"
    by (cases "split_on P s") auto
  show ?case
  proof (cases "P a")
    case True
    then show ?thesis using Cons by auto
  next
    case False
    then have "p = a # h \<or> p \<in> set t" using Cons.prems(1) by (simp add: ht)
    then show ?thesis
    proof
      assume "p = a # h"
      then show ?thesis using Cons.prems(2) False Cons.IH[of h] by (auto simp: ht)
    next
      assume "p \<in> set t"
      then show ?thesis using Cons.prems(2) Cons.IH[of p] by (simp add: ht)
    qed
  qed
qed

lemma split_on_length: "length (split_on P s) = Suc (length (filter P s))"
proof (induction s)
  case Nil
  then show ?case by simp
next
  case (Cons a s)
  then show ?case by (cases "split_on P s") auto
qed

lemma split_on_single: "(length (split_on P s) < 2) = (\<forall>x \<in> set s. \<not> P x)"
  by (simp add: split_on_length filter_empty_conv less_Suc_eq)

lemma split_on_char_single: "(length (split_on (\<lambda>x. x = c) s) < 2) = (c \<notin> set s)"
  by (auto simp: split_on_single)

lemma username_decomposition:
  assumes "CHR ''_'' \<in> set u"
  shows "u = usernameBase u @ ''_'' @ last (split_on (\<lambda>c. c = CHR ''_'') u)
       \<and> CHR ''_'' \<notin> set (last (split_on (\<lambda>c. c = CHR ''_'') u))"
proof -
  let ?parts = "split_on (\<lambda>c. c = CHR ''_'') u"
  have len: "\<not> length ?parts < 2"
    using assms by (simp add: split_on_char_single)
  have ne: "?parts \<noteq> []" by simp
  have bl: "butlast ?parts \<noteq> []"
  proof
    assume "butlast ?parts = []"
    then have "length (butlast ?parts) = 0" by (simp only: list.size)
    then show False using len by simp
  qed
  have e: "joinWith ''_'' ?parts = joinWith ''_'' (butlast ?parts) @ ''_'' @ last ?parts"
    using joinWith_snoc[OF bl, of "''_''" "last ?parts"]
    unfolding append_butlast_last_id[OF ne] .
  have j: "joinWith ''_'' ?parts = u" by (rule joinWith_split_on)
  have a: "u = usernameBase u @ ''_'' @ last ?parts"
    unfolding usernameBase_def by (rule trans[OF sym[OF j] e])
  have lin: "last ?parts \<in> set ?parts" using ne by (rule last_in_set)
  have b: "CHR ''_'' \<notin> set (last ?parts)"
  proof
    assume "CHR ''_'' \<in> set (last ?parts)"
    from split_on_segments_free[OF lin this] show False by simp
  qed
  show ?thesis by (rule conjI[OF a b])
qed

text \<open>
  Claim C6 as stated fails on a user name that ends in an underscore: the right side of the
  last underscore is empty, and the handler looks up the id \<^verbatim>\<open>a\<close> in its place.  With
  the servers \<open>abc\<close> and \<open>xyz\<close> registered the empty id is a prefix of both, yet
  \<^verbatim>\<open>bob_\<close> is matched to \<open>abc\<close> and accepted.
\<close>

theorem trailing_underscore_counterexample:
  "serverId_of ''bob_'' = ''a''
   \<and> prefix_matches [] abc_xyz_world = [0, 1]
   \<and> authentication (\<lambda>_ _ _. True) abc_xyz_world AuthPassword ''bob_'' ''pw''
       = Accept 0 ''E:/servers/abc''"
  by (simp add: serverId_of_def prefix_matches_def abc_xyz_world_def new_Server_def
      authentication_def lookup_serverObj_def getServer_def has_id_def usernameBase_def
      path_join_def path_normalize_def normalizeString_def BASE_SERVER_PATH_def is_slash_def Let_def)

text \<open>
  Claim C6, amended.  A user name without underscore is rejected.  Otherwise it splits at
  its last underscore into the user name on the left, which may contain underscores, and
  a right side without underscore; the server id is the right side, or \<^verbatim>\<open>a\<close> when the
  right side is empty.  The server is the exact match of the id if there is one, else the
  only server whose id begins with it; when there is no exact match and the number of
  such servers is not one, the authentication is rejected; with a server found it is
  accepted exactly when the remote verification accepts.
\<close>

theorem sftp_username_resolution:
  "(CHR ''_'' \<notin> set u \<longrightarrow> authentication V w AuthPassword u pw = Reject [])
   \<and> (CHR ''_'' \<in> set u \<longrightarrow>
        (\<exists>right. u = usernameBase u @ ''_'' @ right \<and> CHR ''_'' \<notin> set right
                \<and> serverId_of u = (if right = [] then ''a'' else right))
        \<and> (\<forall>r. getServer (serverId_of u) w = Some r
                \<longrightarrow> lookup_serverObj (serverId_of u) w = Some r)
        \<and> (getServer (serverId_of u) w = None \<longrightarrow>
              (\<forall>r. prefix_matches (serverId_of u) w = [r]
                   \<longrightarrow> lookup_serverObj (serverId_of u) w = Some r)
              \<and> (length (prefix_matches (serverId_of u) w) \<noteq> 1
                   \<longrightarrow> authentication V w AuthPassword u pw = Reject []))
        \<and> (\<forall>r s. lookup_serverObj (serverId_of u) w = Some r \<and> heap w r = Some s
                \<longrightarrow> authentication V w AuthPassword u pw
                      = (if V (usernameBase u) pw (id_server s)
                         then Accept r (path_join [BASE_SERVER_PATH, id_server s])
                         else Reject [])))"
proof (intro conjI impI)
  assume "CHR ''_'' \<notin> set u"
  then have "length (split_on (\<lambda>c. c = CHR ''_'') u) < 2"
    by (simp add: split_on_char_single)
  then show "authentication V w AuthPassword u pw = Reject []"
    by (simp add: authentication_def)
next
  assume u: "CHR ''_'' \<in> set u"
  let ?l = "last (split_on (\<lambda>c. c = CHR ''_'') u)"
  note d = username_decomposition[OF u]
  have c: "serverId_of u = (if ?l = [] then ''a'' else ?l)"
    by (simp add: serverId_of_def Let_def)
  show "\<exists>right. u = usernameBase u @ ''_'' @ right \<and> CHR ''_'' \<notin> set right
                \<and> serverId_of u = (if right = [] then ''a'' else right)"
    by (rule exI[of _ ?l]) (rule conjI[OF conjunct1[OF d] conjI[OF conjunct2[OF d] c]])
next
  show "\<forall>r. getServer (serverId_of u) w = Some r
                \<longrightarrow> lookup_serverObj (serverId_of u) w = Some r"
    by (simp add: lookup_serverObj_def)
next
  assume "getServer (serverId_of u) w = None"
  then show "\<forall>r. prefix_matches (serverId_of u) w = [r]
                   \<longrightarrow> lookup_serverObj (serverId_of u) w = Some r"
    by (simp add: lookup_serverObj_def)
next
  assume u: "CHR ''_'' \<in> set u" and g: "getServer (serverId_of u) w = None"
    and l: "length (prefix_matches (serverId_of u) w) \<noteq> 1"
  have "lookup_serverObj (serverId_of u) w = None"
    using g l by (cases "prefix_matches (serverId_of u) w" rule: list.exhaust)
                 (auto simp: lookup_serverObj_def split: list.splits)
  moreover have "\<not> length (split_on (\<lambda>c. c = CHR ''_'') u) < 2"
    using u by (simp add: split_on_char_single)
  ultimately show "authentication V w AuthPassword u pw = Reject []"
    by (simp add: authentication_def)
next
  assume u: "CHR ''_'' \<in> set u"
  have "\<not> length (split_on (\<lambda>c. c = CHR ''_'') u) < 2"
    using u by (simp add: split_on_char_single)
  then show "\<forall>r s. lookup_serverObj (serverId_of u) w = Some r \<and> heap w r = Some s
                \<longrightarrow> authentication V w AuthPassword u pw
                      = (if V (usernameBase u) pw (id_server s)
                         then Accept r (path_join [BASE_SERVER_PATH, id_server s])
                         else Reject [])"
    by (simp add: authentication_def)
qed

theorem sftp_username_resolution_witness:
  "usernameBase ''a_b_c_xyz'' = ''a_b_c'' \<and> serverId_of ''a_b_c_xyz'' = ''xyz''
   \<and> lookup_serverObj (serverId_of ''a_b_c_xyz'') abc_xyz_world = Some 1"
proof -
  have u: "CHR ''_'' \<in> set ''a_b_c_xyz''" by simp
  have g: "getServer (serverId_of ''a_b_c_xyz'') abc_xyz_world = Some 1"
    by (simp add: serverId_of_def getServer_def abc_xyz_world_def has_id_def new_Server_def)
  have b: "usernameBase ''a_b_c_xyz'' = ''a_b_c''" by (simp add: usernameBase_def)
  have "\<exists>right. ''a_b_c_xyz'' = usernameBase ''a_b_c_xyz'' @ ''_'' @ right
          \<and> CHR ''_'' \<notin> set right
          \<and> serverId_of ''a_b_c_xyz'' = (if right = [] then ''a'' else right)"
    and "lookup_serverObj (serverId_of ''a_b_c_xyz'') abc_xyz_world = Some 1"
    using sftp_username_resolution[of "''a_b_c_xyz''" "\<lambda>_ _ _. True" abc_xyz_world "''pw''"] u g
    by blast+
  then show ?thesis using b by auto
qed

section \<open>Properties of the path resolvers\<close>









lemma stack_ok_Nil: "stack_ok []"
  by (simp add: stack_ok_def)

lemma stack_ok_push: "stack_ok res \<Longrightarrow> plain s \<Longrightarrow> stack_ok (s # res)"
proof -
  assume "stack_ok res" and s: "plain s"
  then obtain ps ds where r: "res = ps @ ds" "list_all plain ps" "\<forall>d \<in> set ds. d = ''..''"
    unfolding stack_ok_def by blast
  have "s # res = (s # ps) @ ds" "list_all plain (s # ps)" using r s by simp_all
  then show ?thesis unfolding stack_ok_def using r(3) by blast
qed

lemma stack_ok_dots: "stack_ok res \<Longrightarrow> res = [] \<or> hd res = ''..'' \<Longrightarrow> stack_ok (''..'' # res)"
proof -
  assume ok: "stack_ok res" and h: "res = [] \<or> hd res = ''..''"
  from ok obtain ps ds where r: "res = ps @ ds" "list_all plain ps" "\<forall>d \<in> set ds. d = ''..''"
    unfolding stack_ok_def by blast
  have "ps = []"
  proof (cases ps)
    case Nil
    then show ?thesis .
  next
    case (Cons p ps')
    then have "hd res = p" "plain p" using r by auto
    then show ?thesis using h r Cons by (auto simp: plain_def)
  qed
  then have "''..'' # res = [] @ (''..'' # ds)" using r by simp
  then show ?thesis unfolding stack_ok_def using r(3)
    by (intro exI[of _ "[]"] exI[of _ "''..'' # ds"]) auto
qed

lemma stack_ok_tl: "stack_ok res \<Longrightarrow> stack_ok (tl res)"
proof -
  assume "stack_ok res"
  then obtain ps ds where r: "res = ps @ ds" "list_all plain ps" "\<forall>d \<in> set ds. d = ''..''"
    unfolding stack_ok_def by blast
  show ?thesis
  proof (cases ps)
    case Nil
    then have "tl res = [] @ tl ds" using r by simp
    moreover have "\<forall>d \<in> set (tl ds). d = ''..''" using r(3) by (cases ds) auto
    ultimately show ?thesis unfolding stack_ok_def by (intro exI[of _ "[]"] exI[of _ "tl ds"]) auto
  next
    case (Cons p ps')
    then have "tl res = ps' @ ds" "list_all plain ps'" using r by auto
    then show ?thesis unfolding stack_ok_def using r(3) by blast
  qed
qed

lemma normalizeSegs_stack_ok:
  "stack_ok res \<Longrightarrow> stack_ok (rev (normalizeSegs a res ss))"
proof (induction ss arbitrary: res)
  case Nil
  then show ?case by simp
next
  case (Cons s ss)
  have p: "s \<noteq> [] \<Longrightarrow> s \<noteq> ''.'' \<Longrightarrow> s \<noteq> ''..'' \<Longrightarrow> plain s" by (simp add: plain_def)
  show ?case
    using Cons.IH[OF Cons.prems] Cons.IH[OF stack_ok_push[OF Cons.prems p]]
          Cons.IH[OF stack_ok_dots[OF Cons.prems]] Cons.IH[OF stack_ok_tl[OF Cons.prems]]
    by auto
qed


lemma normalizeSegs_head_plain:
  assumes "normalizeSegs a [] ss = x # xs" and "x \<noteq> ''..''"
  shows "list_all plain (x # xs)"
proof -
  have "stack_ok (rev (normalizeSegs a [] ss))"
    by (rule normalizeSegs_stack_ok[OF stack_ok_Nil])
  then obtain ps ds where r: "rev (x # xs) = ps @ ds" "list_all plain ps" "\<forall>d \<in> set ds. d = ''..''"
    unfolding stack_ok_def assms(1) by blast
  have "ds = []"
  proof (rule ccontr)
    assume "ds \<noteq> []"
    then have "last (rev (x # xs)) = last ds" using r(1) by simp
    moreover have "last ds \<in> set ds" using \<open>ds \<noteq> []\<close> by simp
    ultimately show False using r(3) assms(2) by auto
  qed
  then have "rev (x # xs) = ps" using r(1) by simp
  then have "list_all plain (rev (x # xs))" using r(2) by simp
  then show ?thesis by (simp add: list_all_iff)
qed










































lemma normalize_sftp_only_error:
  "normalize_sftp rootDir p = Inl err \<Longrightarrow> err = PathForaDoSandbox"
  by (auto simp: normalize_sftp_def Let_def split: if_splits)




















section \<open>Properties of unarchive\<close>


declare split_on.simps(2) [simp del]










declare split_on.simps(2) [simp]































end
